theory Spec2Isabelle
  imports Main "HOL-Library.Sublist"
begin

section \<open>GoalMate: leveling ledger, progress projector, habit tracker, quest parser\<close>

text \<open>
  A shallow embedding of the functions of \<^verbatim>\<open>src/index.tsx\<close> that compute derived
  state: \<^verbatim>\<open>awardXp\<close>, \<^verbatim>\<open>calculateOverallProgressDisplay\<close>, the module handlers
  of \<^verbatim>\<open>GoalProgressViewPage\<close>, the check-in and streak-freeze handlers of
  \<^verbatim>\<open>DailyTrackerPage\<close> and the response parsing of \<^verbatim>\<open>getWeeklyQuest\<close>.

  Module-level mutable variables (\<^verbatim>\<open>mockUserProfile\<close>, \<^verbatim>\<open>mockXpLog\<close>, ...) and
  React state are fields of explicit state records; every handler takes the state and
  returns the new one. \<^verbatim>\<open>getTodaysDateString()\<close> reads the clock, so the date string
  it returns is a parameter \<open>today\<close> of each function that calls it. Integral JavaScript
  numbers are \<open>int\<close>, and \<open>nat\<close> for lengths and for the counters the code steps by
  one (streaks, freeze tokens, check-in counts), on which binary64 arithmetic is exact
  below \<open>2 ^ 53\<close>. Where the source adds an amount of any size or computes with
  fractions, the binary64 rounding is written out.
\<close>

subsection \<open>JavaScript numbers\<close>

text \<open>
  A JavaScript number is an IEEE 754 binary64 value, and every arithmetic operation returns
  the binary64 value nearest to the exact result, ties to the even significand. A finite
  number is written here as a fraction \<open>(a, b)\<close> of integers with \<open>b > 0\<close>, and the
  rounding is computed exactly in integer arithmetic. Overflow to \<^verbatim>\<open>Infinity\<close> (beyond
  \<open>2 ^ 1024\<close>) is not modelled.
\<close>

type_synonym frac = "int \<times> int"

text \<open>The number of binary digits of a positive integer.\<close>

function bit_length :: "int \<Rightarrow> nat" where
  "bit_length n = (if n \<le> 0 then 0 else Suc (bit_length (n div 2)))"
  by pat_completeness auto
termination
  by (relation "measure nat") auto

declare bit_length.simps [simp del]

text \<open>For \<open>a / b > 0\<close>: the integer \<open>E\<close> with \<open>2 ^ E \<le> a / b < 2 ^ (E + 1)\<close>.\<close>

definition binary_exponent :: "frac \<Rightarrow> int" where
  "binary_exponent q =
     (let a = fst q; b = snd q;
          k = int (bit_length a) - int (bit_length b)
      in if (if k \<ge> 0 then b * 2 ^ nat k \<le> a else b \<le> a * 2 ^ nat (- k))
         then k else k - 1)"

text \<open>The integer nearest to \<open>a / b\<close>, a tie going to the even one.\<close>

definition round_half_even :: "frac \<Rightarrow> int" where
  "round_half_even q =
     (let f = fst q div snd q; r = fst q mod snd q in
      if 2 * r < snd q then f else if 2 * r > snd q then f + 1
      else if even f then f else f + 1)"

text \<open>Rounding a positive fraction to a 53-bit significand; below \<open>2 ^ - 1022\<close> the
  spacing stays \<open>2 ^ - 1074\<close> (subnormal numbers).\<close>

definition round_pos :: "frac \<Rightarrow> frac" where
  "round_pos q =
     (let e = max (binary_exponent q - 52) (- 1074);
          m = round_half_even (if e \<ge> 0 then (fst q, snd q * 2 ^ nat e)
                               else (fst q * 2 ^ nat (- e), snd q))
      in if e \<ge> 0 then (m * 2 ^ nat e, 1) else (m, 2 ^ nat (- e)))"

definition binary64 :: "frac \<Rightarrow> frac" where
  "binary64 q =
     (if fst q = 0 then (0, 1)
      else if fst q < 0 then (let r = round_pos (- fst q, snd q) in (- fst r, snd r))
      else round_pos q)"

definition num_add :: "frac \<Rightarrow> frac \<Rightarrow> frac" where
  "num_add x y = binary64 (fst x * snd y + fst y * snd x, snd x * snd y)"

definition num_mul :: "frac \<Rightarrow> frac \<Rightarrow> frac" where
  "num_mul x y = binary64 (fst x * fst y, snd x * snd y)"

text \<open>Division by a positive number (the projector divides by a length it has checked
  to be positive).\<close>

definition num_div :: "frac \<Rightarrow> frac \<Rightarrow> frac" where
  "num_div x y = binary64 (fst x * snd y, snd x * fst y)"

definition num_of_nat :: "nat \<Rightarrow> frac" where
  "num_of_nat n = binary64 (int n, 1)"

text \<open>
  The sum of two integral numbers, as \<^verbatim>\<open>+\<close> computes it. The binary64 value nearest
  to an integer is an integer, so the result is given as an \<open>int\<close>; it is the exact sum
  when that lies strictly between \<open>- 2 ^ 53\<close> and \<open>2 ^ 53\<close>, and a rounded one beyond.
  \<open>is_js_integer n\<close>: the integer \<open>n\<close> is a finite binary64 value, that is, a value a
  JavaScript variable can hold.
\<close>

definition int_value :: "frac \<Rightarrow> int" where
  "int_value r = fst r div snd r"

definition js_add :: "int \<Rightarrow> int \<Rightarrow> int" where
  "js_add x y = int_value (num_add (x, 1) (y, 1))"

definition is_js_integer :: "int \<Rightarrow> bool" where
  "is_js_integer n \<longleftrightarrow> js_add n 0 = n \<and> \<bar>n\<bar> < 2 ^ 1024"

text \<open>\<^verbatim>\<open>Math.round\<close>: the nearest integer, a tie going up.\<close>

definition Math_round :: "frac \<Rightarrow> int" where
  "Math_round x = (2 * fst x + snd x) div (2 * snd x)"

text \<open>A number in a template literal: the decimal digits of a natural number.\<close>

definition digit_char :: "nat \<Rightarrow> char" where
  "digit_char d = ''0123456789'' ! d"

function string_of_nat :: "nat \<Rightarrow> string" where
  "string_of_nat n =
     (if n < 10 then [digit_char n] else string_of_nat (n div 10) @ [digit_char (n mod 10)])"
  by pat_completeness auto
termination
  by (relation "measure (\<lambda>n. n)") auto

declare string_of_nat.simps [simp del]

subsection \<open>Leveling ledger\<close>

type_synonym date = string

record unlockable =
  perk_name :: string
  xpRequired :: int
  perk_id :: string

record user_profile =
  xp :: int
  level :: int
  darkMode :: bool
  unlockedPerks :: "unlockable list"

record xp_log_entry =
  log_date :: date
  log_xp :: int

record ledger =
  mockUserProfile :: user_profile
  mockXpLog :: "xp_log_entry list"

text \<open>\<^verbatim>\<open>const LEVEL_THRESHOLDS = { 1: 0, 2: 100, 3: 250, 4: 500, 5: 1000 }\<close>;
  a key that is absent reads as \<^verbatim>\<open>undefined\<close>, here \<open>None\<close>.\<close>

definition LEVEL_THRESHOLDS :: "int \<Rightarrow> int option" where
  "LEVEL_THRESHOLDS l =
     (if l = 1 then Some 0 else if l = 2 then Some 100 else if l = 3 then Some 250
      else if l = 4 then Some 500 else if l = 5 then Some 1000 else None)"

definition UNLOCKABLES :: "unlockable list" where
  "UNLOCKABLES =
     [\<lparr>perk_name = ''Dark Mode Theme'', xpRequired = 100, perk_id = ''dark_mode''\<rparr>,
      \<lparr>perk_name = ''Buddy Insight Stats'', xpRequired = 200, perk_id = ''buddy_stats''\<rparr>,
      \<lparr>perk_name = ''Custom Goal Categories'', xpRequired = 300,
         perk_id = ''custom_categories''\<rparr>,
      \<lparr>perk_name = ''Community Quests'', xpRequired = 500, perk_id = ''community_quests''\<rparr>]"

text \<open>\<^verbatim>\<open>Array.prototype.findIndex\<close>: the index of the first element satisfying the
  predicate; the source's \<^verbatim>\<open>-1\<close> is \<open>None\<close>.\<close>

fun findIndex :: "('a \<Rightarrow> bool) \<Rightarrow> 'a list \<Rightarrow> nat option" where
  "findIndex P [] = None"
| "findIndex P (x # xs) = (if P x then Some 0 else map_option Suc (findIndex P xs))"

text \<open>The \<^verbatim>\<open>// Update XP log\<close> block: overwrite the value of the first entry dated
  today, or push a new entry.\<close>

definition update_xp_log :: "date \<Rightarrow> int \<Rightarrow> xp_log_entry list \<Rightarrow> xp_log_entry list" where
  "update_xp_log today v lg =
     (case findIndex (\<lambda>e. log_date e = today) lg of
        Some i \<Rightarrow> lg[i := (lg ! i)\<lparr>log_xp := v\<rparr>]
      | None \<Rightarrow> lg @ [\<lparr>log_date = today, log_xp = v\<rparr>])"

text \<open>\<^verbatim>\<open>if(mockXpLog.length > 60) mockXpLog.shift();\<close>\<close>

definition shift_if_long :: "xp_log_entry list \<Rightarrow> xp_log_entry list" where
  "shift_if_long lg = (if length lg > 60 then tl lg else lg)"

text \<open>The \<^verbatim>\<open>// Check for level ups\<close> block. The guard
  \<^verbatim>\<open>LEVEL_THRESHOLDS[nextLevel] && xp >= LEVEL_THRESHOLDS[nextLevel]\<close> fails when the
  entry is absent and also when it is the number 0, which is falsy.\<close>

definition check_level_up :: "user_profile \<Rightarrow> user_profile" where
  "check_level_up p =
     (let currentLevel = level p; nextLevel = currentLevel + 1 in
      case LEVEL_THRESHOLDS nextLevel of
        None \<Rightarrow> p
      | Some t \<Rightarrow> if t \<noteq> 0 \<and> xp p \<ge> t then p\<lparr>level := nextLevel\<rparr> else p)"

text \<open>One iteration of \<^verbatim>\<open>UNLOCKABLES.forEach\<close>, and the loop.\<close>

definition check_unlock :: "user_profile \<Rightarrow> unlockable \<Rightarrow> user_profile" where
  "check_unlock p u =
     (if xp p \<ge> xpRequired u \<and> find (\<lambda>q. perk_id q = perk_id u) (unlockedPerks p) = None
      then p\<lparr>unlockedPerks := unlockedPerks p @ [u]\<rparr> else p)"

definition check_unlocks :: "user_profile \<Rightarrow> user_profile" where
  "check_unlocks p = foldl check_unlock p UNLOCKABLES"

text \<open>\<^verbatim>\<open>awardXp(amount)\<close>. The experience and the amount are integral numbers;
  \<^verbatim>\<open>mockUserProfile.xp += amount\<close> is the binary64 sum.\<close>

definition awardXp :: "date \<Rightarrow> int \<Rightarrow> ledger \<Rightarrow> ledger" where
  "awardXp today amount s =
     (if amount = 0 then s
      else
        let p1 = (mockUserProfile s)\<lparr>xp := js_add (xp (mockUserProfile s)) amount\<rparr>;
            lg = shift_if_long (update_xp_log today (xp p1) (mockXpLog s))
        in \<lparr>mockUserProfile = check_unlocks (check_level_up p1), mockXpLog = lg\<rparr>)"

text \<open>The profile the source starts from, with an empty XP log.\<close>

definition initial_profile :: user_profile where
  "initial_profile = \<lparr>xp = 85, level = 1, darkMode = False, unlockedPerks = []\<rparr>"

definition initial_ledger :: ledger where
  "initial_ledger = \<lparr>mockUserProfile = initial_profile, mockXpLog = []\<rparr>"

definition fresh_ledger :: ledger where
  "fresh_ledger =
     \<lparr>mockUserProfile = \<lparr>xp = 0, level = 1, darkMode = False, unlockedPerks = []\<rparr>,
      mockXpLog = []\<rparr>"

subsection \<open>Goals, modules and the progress projector\<close>

datatype module_status = Pending | Completed

record module =
  module_id :: string
  mod_name :: string
  status :: module_status
  verified :: bool

datatype goal_type = Learning | Generic

text \<open>A field that a goal object may lack (\<^verbatim>\<open>modules\<close>, \<^verbatim>\<open>progressPercent\<close>,
  \<^verbatim>\<open>statusText\<close>, \<^verbatim>\<open>linkedHabitId\<close>) is an \<open>option\<close>.\<close>

record goal =
  goal_id :: string
  title :: string
  goal_type :: goal_type
  modules :: "module list option"
  progressPercent :: "int option"
  statusText :: "string option"
  linkedHabitId :: "string option"

record progress_display =
  percent :: int
  display_text :: string

definition learning_percent :: "nat \<Rightarrow> nat \<Rightarrow> nat \<Rightarrow> int" where
  "learning_percent verifiedCount completedNotVerifiedCount totalModules =
     (let effectiveProgressValue =
            num_add (num_of_nat verifiedCount)
                    (num_mul (num_of_nat completedNotVerifiedCount) (1, 2))
      in if totalModules > 0
         then Math_round (num_mul (num_div effectiveProgressValue (num_of_nat totalModules))
                                  (100, 1))
         else 0)"

definition calculateOverallProgressDisplay :: "goal option \<Rightarrow> progress_display" where
  "calculateOverallProgressDisplay go =
     (case go of
        None \<Rightarrow> \<lparr>percent = 0, display_text = ''N/A''\<rparr>
      | Some g \<Rightarrow>
          (case (if goal_type g = Learning then modules g else None) of
             Some ms \<Rightarrow>
               (let totalModules = length ms in
                if totalModules = 0 then \<lparr>percent = 0, display_text = ''No modules''\<rparr>
                else
                  let verifiedCount = length (filter verified ms);
                      completedNotVerifiedCount =
                        length (filter (\<lambda>m. status m = Completed \<and> \<not> verified m) ms)
                  in \<lparr>percent =
                        learning_percent verifiedCount completedNotVerifiedCount totalModules,
                      display_text = string_of_nat verifiedCount @ '' Verified, ''
                        @ string_of_nat completedNotVerifiedCount @ '' Self-Completed / ''
                        @ string_of_nat totalModules @ '' Total Modules''\<rparr>)
           | None \<Rightarrow>
               \<lparr>percent = (case progressPercent g of None \<Rightarrow> 0 | Some p \<Rightarrow> p),
                display_text = (case statusText g of
                          Some t \<Rightarrow> if t \<noteq> [] then t
                                    else if progressPercent g = Some 100 then ''Completed!''
                                    else ''Not started''
                        | None \<Rightarrow> if progressPercent g = Some 100 then ''Completed!''
                                  else ''Not started'')\<rparr>))"

text \<open>The percentage the specification asks for: \<open>100 * (v + h / 2) / N\<close> rounded to
  the nearest integer, a half going up, computed without rounding error.\<close>

definition round_half_up_percent :: "nat \<Rightarrow> nat \<Rightarrow> nat \<Rightarrow> int" where
  "round_half_up_percent v h n = (100 * (2 * int v + int h) + int n) div (2 * int n)"

subsection \<open>Module handlers and the events of the goal page\<close>

text \<open>
  \<^verbatim>\<open>GoalProgressViewPage\<close> keeps the displayed goal in the React state \<^verbatim>\<open>goal\<close>. A
  handler builds the updated goal from the \<^verbatim>\<open>goal\<close> of the render that created it and
  passes it to \<^verbatim>\<open>updateGlobalAndLocalGoal\<close>, which stores it in \<^verbatim>\<open>mockGoalsData\<close>
  and forces the effect that reloads \<^verbatim>\<open>goal\<close> through
  \<^verbatim>\<open>calculateLocalGoalProgress\<close>.
\<close>

definition calculateLocalGoalProgress :: "goal \<Rightarrow> goal" where
  "calculateLocalGoalProgress currentGoal =
     (let progressDetails = calculateOverallProgressDisplay (Some currentGoal)
      in currentGoal\<lparr>progressPercent := Some (percent progressDetails),
                      statusText := Some (display_text progressDetails)\<rparr>)"

text \<open>\<^verbatim>\<open>mockGoalsData[i] = { ...mockGoalsData[i], ...updatedGoalData }\<close> at the first
  index with the goal's id; the updated goal carries every field, so the merge is the
  updated goal.\<close>

definition updateGlobalAndLocalGoal :: "goal \<Rightarrow> goal list \<Rightarrow> goal list" where
  "updateGlobalAndLocalGoal updatedGoalData mockGoalsData =
     (case findIndex (\<lambda>g. goal_id g = goal_id updatedGoalData) mockGoalsData of
        Some i \<Rightarrow> mockGoalsData[i := updatedGoalData]
      | None \<Rightarrow> mockGoalsData)"

definition handleModuleVerified :: "string \<Rightarrow> goal \<Rightarrow> goal" where
  "handleModuleVerified moduleId g =
     (case modules g of
        None \<Rightarrow> g
      | Some ms \<Rightarrow>
          g\<lparr>modules := Some (map (\<lambda>m. if module_id m = moduleId
                                        then m\<lparr>status := Completed, verified := True\<rparr>
                                        else m) ms)\<rparr>)"

definition handleModuleSelfCompleted :: "string \<Rightarrow> goal \<Rightarrow> goal" where
  "handleModuleSelfCompleted moduleId g =
     (case modules g of
        None \<Rightarrow> g
      | Some ms \<Rightarrow>
          g\<lparr>modules := Some (map (\<lambda>m. if module_id m = moduleId
                                        then m\<lparr>status := Completed, verified := False\<rparr>
                                        else m) ms)\<rparr>)"

text \<open>A call of one of the two handlers, and the updated goal it builds from the goal
  its closure holds.\<close>

datatype module_call = ModuleVerified string | ModuleSelfCompleted string

fun updated_goal :: "module_call \<Rightarrow> goal \<Rightarrow> goal" where
  "updated_goal (ModuleVerified i) g = handleModuleVerified i g"
| "updated_goal (ModuleSelfCompleted i) g = handleModuleSelfCompleted i g"

text \<open>
  The state of the page. \<open>verifyingModule\<close> is the module the verification dialog is
  open on (\<open>None\<close>: no dialog); \<open>isSubmittingAnswer\<close> is the flag of the open dialog,
  which disables its two buttons once one of them was clicked. The dialog does not call
  the handler when a button is clicked: \<^verbatim>\<open>handleSelfComplete\<close> and
  \<^verbatim>\<open>handleSubmitToAI\<close> pass \<^verbatim>\<open>() => { onModuleSelfCompleted(module.id); onClose(); }\<close>
  (or \<^verbatim>\<open>onModuleVerified\<close>) to \<^verbatim>\<open>setTimeout\<close>, with a delay of 1800 or 2800
  milliseconds, and no timer is ever cleared. \<open>pending_calls\<close> holds these deferred calls,
  each with the \<^verbatim>\<open>goal\<close> of the render that created the handler, which is the goal the
  handler will read when it runs.
\<close>

record goal_page =
  mockGoalsData :: "goal list"
  goalId :: string
  page_goal :: goal
  verifyingModule :: "module option"
  isSubmittingAnswer :: bool
  pending_calls :: "(module_call \<times> goal) list"

text \<open>The effect that loads \<^verbatim>\<open>goal\<close>: the goal of \<^verbatim>\<open>mockGoalsData\<close> with the page's
  id, or a placeholder (which has no type and no modules, so it is not a Learning
  goal).\<close>

definition load_goal :: "goal list \<Rightarrow> string \<Rightarrow> goal" where
  "load_goal gs gid =
     (case find (\<lambda>g. goal_id g = gid) gs of
        Some foundGoal \<Rightarrow> calculateLocalGoalProgress foundGoal
      | None \<Rightarrow>
          \<lparr>goal_id = (if gid \<noteq> [] then gid else ''N/A''), title = ''Goal Not Found'',
           goal_type = Generic, modules = None, progressPercent = Some 0,
           statusText = Some ''Could not load goal.'', linkedHabitId = None\<rparr>)"

definition mount_goal_page :: "goal list \<Rightarrow> string \<Rightarrow> goal_page" where
  "mount_goal_page gs gid =
     \<lparr>mockGoalsData = gs, goalId = gid, page_goal = load_goal gs gid,
      verifyingModule = None, isSubmittingAnswer = False, pending_calls = []\<rparr>"

text \<open>A handler's last step: the updated goal is stored and the page reloads its
  goal.\<close>

definition store_and_reload :: "goal \<Rightarrow> goal_page \<Rightarrow> goal_page" where
  "store_and_reload updatedGoalData s =
     (let gs = updateGlobalAndLocalGoal updatedGoalData (mockGoalsData s)
      in s\<lparr>mockGoalsData := gs, page_goal := load_goal gs (goalId s)\<rparr>)"

text \<open>A handler call that reads the goal \<open>g\<close>, run in the page state \<open>s\<close>:
  \<^verbatim>\<open>if (!goal || !goal.modules) return;\<close>, else the updated goal is stored.\<close>

definition call_module_handler :: "module_call \<Rightarrow> goal \<Rightarrow> goal_page \<Rightarrow> goal_page" where
  "call_module_handler c g s =
     (case modules g of
        None \<Rightarrow> s
      | Some ms \<Rightarrow> store_and_reload (updated_goal c g) s)"

text \<open>\<^verbatim>\<open>closeVerificationModal\<close>: the dialog is closed and the page reloads its
  goal.\<close>

definition closeVerificationModal :: "goal_page \<Rightarrow> goal_page" where
  "closeVerificationModal s =
     s\<lparr>verifyingModule := None, page_goal := load_goal (mockGoalsData s) (goalId s)\<rparr>"

text \<open>
  What the page lets the user do to a module. The module list is rendered for Learning
  goals that have modules. The list item of a module renders the button
  \<^verbatim>\<open>I did it!\<close> (calling \<^verbatim>\<open>handleModuleSelfCompleted\<close> at once) and the button that
  opens the verification dialog only under \<^verbatim>\<open>module.status === 'pending'\<close>, and the
  button \<^verbatim>\<open>Re-verify with AI\<close> only under
  \<^verbatim>\<open>module.status === 'completed' && !module.verified\<close>.
\<close>

definition rendered_modules :: "goal \<Rightarrow> module list" where
  "rendered_modules g =
     (case (if goal_type g = Learning then modules g else None) of
        Some ms \<Rightarrow> ms | None \<Rightarrow> [])"

definition dialog_offered :: "module \<Rightarrow> bool" where
  "dialog_offered m \<longleftrightarrow> status m = Pending \<or> (status m = Completed \<and> \<not> verified m)"

text \<open>
  The events of the page: a click on \<^verbatim>\<open>I did it!\<close> of a module; a click on
  \<^verbatim>\<open>Verify with AI\<close> or \<^verbatim>\<open>Re-verify with AI\<close> of a module, which opens the dialog;
  in the dialog, the submission of an answer or a click on
  \<^verbatim>\<open>Mark as Self-Completed\<close>, each of which defers its handler call; a click on the
  close button of the dialog, which carries \<^verbatim>\<open>disabled={isSubmittingAnswer}\<close>; a
  click on the overlay of the dialog, whose \<^verbatim>\<open>onClick\<close> is \<^verbatim>\<open>onClose\<close> whether or
  not a call is pending; and the run of the \<open>k\<close>-th deferred call when its timer fires,
  which ends with \<^verbatim>\<open>onClose()\<close>. The list buttons lie under the
  overlay while a dialog is open, so they are taken to be clickable only when none is.
  The question and the answer of the dialog are not part of the state: a submission stands
  for one with a non-empty answer, made once the question is displayed. The submission
  also calls \<^verbatim>\<open>awardXp(10)\<close> at once, which changes the ledger and nothing of this
  page. The order in which deferred calls run is free: a call for an answer is set up only
  when the provider's acknowledgment has arrived.
  \<open>None\<close>: the page offers no such event in the state.
\<close>

datatype page_event =
    ClickIDidIt string
  | OpenVerification string
  | SubmitToAI
  | MarkSelfCompleted
  | ClickCloseButton
  | ClickOverlay
  | DeferredCallRuns nat

fun page_step :: "page_event \<Rightarrow> goal_page \<Rightarrow> goal_page option" where
  "page_step (ClickIDidIt i) s =
     (if verifyingModule s = None \<and>
         list_ex (\<lambda>m. module_id m = i \<and> status m = Pending) (rendered_modules (page_goal s))
      then Some (call_module_handler (ModuleSelfCompleted i) (page_goal s) s)
      else None)"
| "page_step (OpenVerification i) s =
     (if verifyingModule s = None
      then (case find (\<lambda>m. module_id m = i \<and> dialog_offered m)
                   (rendered_modules (page_goal s)) of
              Some m \<Rightarrow> Some (s\<lparr>verifyingModule := Some m, isSubmittingAnswer := False\<rparr>)
            | None \<Rightarrow> None)
      else None)"
| "page_step SubmitToAI s =
     (case verifyingModule s of
        Some m \<Rightarrow>
          if isSubmittingAnswer s then None
          else Some (s\<lparr>isSubmittingAnswer := True,
                       pending_calls :=
                         pending_calls s @ [(ModuleVerified (module_id m), page_goal s)]\<rparr>)
      | None \<Rightarrow> None)"
| "page_step MarkSelfCompleted s =
     (case verifyingModule s of
        Some m \<Rightarrow>
          if isSubmittingAnswer s then None
          else Some (s\<lparr>isSubmittingAnswer := True,
                       pending_calls :=
                         pending_calls s @ [(ModuleSelfCompleted (module_id m), page_goal s)]\<rparr>)
      | None \<Rightarrow> None)"
| "page_step ClickCloseButton s =
     (case verifyingModule s of
        Some m \<Rightarrow> if isSubmittingAnswer s then None else Some (closeVerificationModal s)
      | None \<Rightarrow> None)"
| "page_step ClickOverlay s =
     (case verifyingModule s of
        Some m \<Rightarrow> Some (closeVerificationModal s)
      | None \<Rightarrow> None)"
| "page_step (DeferredCallRuns k) s =
     (if k < length (pending_calls s)
      then (case pending_calls s ! k of
              (c, g) \<Rightarrow>
                Some (closeVerificationModal
                        ((call_module_handler c g s)
                           \<lparr>pending_calls := take k (pending_calls s)
                                             @ drop (Suc k) (pending_calls s)\<rparr>)))
      else None)"

fun run_events :: "page_event list \<Rightarrow> goal_page \<Rightarrow> goal_page option" where
  "run_events [] s = Some s"
| "run_events (e # es) s =
     (case page_step e s of None \<Rightarrow> None | Some s' \<Rightarrow> run_events es s')"

text \<open>The modules of a goal, none when the field is absent, and the status and the
  verification flag of each module the page displays.\<close>

definition modules_of :: "goal \<Rightarrow> module list" where
  "modules_of g = (case modules g of Some ms \<Rightarrow> ms | None \<Rightarrow> [])"

definition module_states :: "goal_page \<Rightarrow> (string \<times> module_status \<times> bool) list" where
  "module_states s = map (\<lambda>m. (module_id m, status m, verified m)) (modules_of (page_goal s))"

subsection \<open>Habit trackers\<close>

datatype log_status = LogCompleted | LogFrozen

datatype proof_type = Screenshot | Link | Unverified | Frozen

record proof_obj =
  proof_type :: proof_type
  proof_value :: "string option"
  proof_comment :: "string option"

record checkin =
  checkin_date :: date
  checkin_status :: log_status
  checkin_proof :: proof_obj

record streak_freezes =
  remaining :: nat
  total :: nat

record tracker =
  tracker_id :: string
  tracker_name :: string
  currentStreak :: nat
  longestStreak :: nat
  streakFreezes :: streak_freezes
  logs :: "checkin list"

record tracker_inputs =
  screenshotPreview :: "string option"
  link :: "string option"
  comment :: "string option"

record checkins_log_entry =
  count_date :: date
  count :: nat

text \<open>The state \<^verbatim>\<open>DailyTrackerPage\<close> reads and writes: its React state \<^verbatim>\<open>trackers\<close>
  and \<^verbatim>\<open>inputs\<close>, and the module-level \<^verbatim>\<open>mockTrackersData\<close>, \<^verbatim>\<open>mockCheckinsLog\<close>
  and the ledger.\<close>

record tracker_page =
  trackers :: "tracker list"
  inputs :: "string \<Rightarrow> tracker_inputs option"
  mockTrackersData :: "tracker list"
  mockCheckinsLog :: "checkins_log_entry list"
  page_ledger :: ledger

text \<open>The page when it mounts: \<^verbatim>\<open>trackers\<close> starts as a deep copy of
  \<^verbatim>\<open>mockTrackersData\<close> and \<^verbatim>\<open>inputs\<close> as the empty object.\<close>

definition mount_tracker_page ::
  "tracker list \<Rightarrow> checkins_log_entry list \<Rightarrow> ledger \<Rightarrow> tracker_page" where
  "mount_tracker_page data checkins l =
     \<lparr>trackers = data, inputs = (\<lambda>_. None), mockTrackersData = data,
      mockCheckinsLog = checkins, page_ledger = l\<rparr>"

text \<open>JavaScript truthiness of a value that is a string, \<^verbatim>\<open>null\<close> or
  \<^verbatim>\<open>undefined\<close>: only a non-empty string is truthy.\<close>

definition truthy :: "string option \<Rightarrow> bool" where
  "truthy v \<longleftrightarrow> (case v of None \<Rightarrow> False | Some s \<Rightarrow> s \<noteq> [])"

definition empty_inputs :: tracker_inputs where
  "empty_inputs = \<lparr>screenshotPreview = None, link = None, comment = None\<rparr>"

definition proof_type_name :: "proof_type \<Rightarrow> string" where
  "proof_type_name ty =
     (case ty of Screenshot \<Rightarrow> ''screenshot'' | Link \<Rightarrow> ''link''
      | Unverified \<Rightarrow> ''unverified'' | Frozen \<Rightarrow> ''frozen'')"

text \<open>\<^verbatim>\<open>updateTrackersState\<close>: the new list becomes the React state and (as a deep copy)
  the module-level list.\<close>

definition updateTrackersState :: "tracker list \<Rightarrow> tracker_page \<Rightarrow> tracker_page" where
  "updateTrackersState newTrackers s = s\<lparr>trackers := newTrackers, mockTrackersData := newTrackers\<rparr>"

definition bump_checkins_log :: "date \<Rightarrow> checkins_log_entry list \<Rightarrow> checkins_log_entry list" where
  "bump_checkins_log today lg =
     (case findIndex (\<lambda>e. count_date e = today) lg of
        Some i \<Rightarrow> lg[i := (lg ! i)\<lparr>count := count (lg ! i) + 1\<rparr>]
      | None \<Rightarrow> lg @ [\<lparr>count_date = today, count = 1\<rparr>])"

text \<open>\<^verbatim>\<open>inputs[trackerId] || {}\<close>\<close>

definition inputs_of :: "tracker_page \<Rightarrow> string \<Rightarrow> tracker_inputs" where
  "inputs_of s trackerId = (case inputs s trackerId of Some i \<Rightarrow> i | None \<Rightarrow> empty_inputs)"

text \<open>The \<^verbatim>\<open>proofValue\<close> that \<^verbatim>\<open>handleCheckIn\<close> reads from the inputs, and the log
  entry \<^verbatim>\<open>newLog\<close> it builds.\<close>

definition proofValue_of :: "proof_type \<Rightarrow> tracker_inputs \<Rightarrow> string option" where
  "proofValue_of ty trackerInputs =
     (if ty = Link then link trackerInputs
      else if ty = Screenshot then screenshotPreview trackerInputs
      else None)"

definition newLog_of :: "date \<Rightarrow> proof_type \<Rightarrow> tracker_inputs \<Rightarrow> checkin" where
  "newLog_of today ty trackerInputs =
     \<lparr>checkin_date = today, checkin_status = LogCompleted,
      checkin_proof =
        \<lparr>proof_type = ty, proof_value = proofValue_of ty trackerInputs,
         proof_comment = (if truthy (comment trackerInputs)
                          then comment trackerInputs else None)\<rparr>\<rparr>"

text \<open>The body of \<^verbatim>\<open>trackers.map\<close> in \<^verbatim>\<open>handleCheckIn\<close>.\<close>

definition check_in_tracker :: "checkin \<Rightarrow> string \<Rightarrow> tracker \<Rightarrow> tracker" where
  "check_in_tracker newLog trackerId t =
     (if tracker_id t = trackerId
      then let newStreak = currentStreak t + 1
           in t\<lparr>logs := newLog # logs t,
                currentStreak := newStreak,
                longestStreak := max (longestStreak t) newStreak\<rparr>
      else t)"

text \<open>\<^verbatim>\<open>handleCheckIn(trackerId, type, xp)\<close>. The message of \<^verbatim>\<open>alert\<close> followed by
  \<^verbatim>\<open>return\<close> is the result \<open>Inl\<close>; otherwise the new state is returned.\<close>

definition handleCheckIn ::
  "date \<Rightarrow> string \<Rightarrow> proof_type \<Rightarrow> int \<Rightarrow> tracker_page \<Rightarrow> string + tracker_page" where
  "handleCheckIn today trackerId ty xp_amount s =
     (let trackerInputs = inputs_of s trackerId;
          proofValue = proofValue_of ty trackerInputs
      in if (ty = Screenshot \<and> \<not> truthy proofValue) \<or> (ty = Link \<and> \<not> truthy proofValue)
         then Inl (''Please provide a '' @ proof_type_name ty @ '' to check in.'')
         else
           let newLog = newLog_of today ty trackerInputs;
               updatedTrackers = map (check_in_tracker newLog trackerId) (trackers s)
           in Inr ((updateTrackersState updatedTrackers
                      (s\<lparr>page_ledger := awardXp today xp_amount (page_ledger s),
                         mockCheckinsLog := bump_checkins_log today (mockCheckinsLog s)\<rparr>))
                   \<lparr>inputs := (inputs s)(trackerId := Some empty_inputs)\<rparr>))"

text \<open>The log entry and the body of \<^verbatim>\<open>trackers.map\<close> in
  \<^verbatim>\<open>handleUseStreakFreeze\<close>.\<close>

definition frozen_log :: "date \<Rightarrow> checkin" where
  "frozen_log today =
     \<lparr>checkin_date = today, checkin_status = LogFrozen,
      checkin_proof = \<lparr>proof_type = Frozen, proof_value = None, proof_comment = None\<rparr>\<rparr>"

definition freeze_tracker :: "date \<Rightarrow> string \<Rightarrow> tracker \<Rightarrow> tracker" where
  "freeze_tracker today trackerId t =
     (if tracker_id t = trackerId \<and> remaining (streakFreezes t) > 0
      then let newLog = frozen_log today;
               newLogs = newLog # logs t
           in t\<lparr>logs := newLogs,
                streakFreezes := (streakFreezes t)
                  \<lparr>remaining := remaining (streakFreezes t) - 1\<rparr>\<rparr>
      else t)"

definition handleUseStreakFreeze :: "date \<Rightarrow> string \<Rightarrow> tracker_page \<Rightarrow> tracker_page" where
  "handleUseStreakFreeze today trackerId s =
     (let updatedTrackers = map (freeze_tracker today trackerId) (trackers s)
      in updateTrackersState updatedTrackers s)"

text \<open>
  The render of \<^verbatim>\<open>DailyTrackerPage\<close> computes, for each tracker,
  \<^verbatim>\<open>todaysLog = tracker.logs.find(log => log.date === getTodaysDateString())\<close>. The
  three check-in buttons exist only in the branch where \<^verbatim>\<open>todaysLog\<close> is undefined
  (the screenshot and link buttons only once their input is filled in; they pass 10 XP and
  \<^verbatim>\<open>Mark as Done\<close> passes 0); the button \<^verbatim>\<open>Use Token\<close> carries
  \<^verbatim>\<open>disabled={todaysLog || tracker.streakFreezes.remaining === 0}\<close>.
\<close>

definition todaysLog :: "date \<Rightarrow> tracker \<Rightarrow> checkin option" where
  "todaysLog today t = find (\<lambda>l. checkin_date l = today) (logs t)"

definition check_in_offered :: "date \<Rightarrow> string \<Rightarrow> proof_type \<Rightarrow> tracker_page \<Rightarrow> bool" where
  "check_in_offered today trackerId ty s =
     list_ex (\<lambda>t. tracker_id t = trackerId \<and> todaysLog today t = None \<and>
                  (let trackerInputs = inputs_of s trackerId
                   in case ty of Screenshot \<Rightarrow> truthy (screenshotPreview trackerInputs)
                      | Link \<Rightarrow> truthy (link trackerInputs)
                      | Unverified \<Rightarrow> True
                      | Frozen \<Rightarrow> False))
             (trackers s)"

text \<open>\<open>None\<close>: the page shows no such button.\<close>

definition click_check_in ::
  "date \<Rightarrow> string \<Rightarrow> proof_type \<Rightarrow> tracker_page \<Rightarrow> (string + tracker_page) option" where
  "click_check_in today trackerId ty s =
     (if check_in_offered today trackerId ty s
      then Some (handleCheckIn today trackerId ty (if ty = Unverified then 0 else 10) s)
      else None)"

definition use_token_enabled :: "date \<Rightarrow> string \<Rightarrow> tracker_page \<Rightarrow> bool" where
  "use_token_enabled today trackerId s =
     list_ex (\<lambda>t. tracker_id t = trackerId \<and>
                  \<not> (todaysLog today t \<noteq> None \<or> remaining (streakFreezes t) = 0))
             (trackers s)"

definition click_use_token :: "date \<Rightarrow> string \<Rightarrow> tracker_page \<Rightarrow> tracker_page option" where
  "click_use_token today trackerId s =
     (if use_token_enabled today trackerId s
      then Some (handleUseStreakFreeze today trackerId s) else None)"

text \<open>
  The places that read \<^verbatim>\<open>currentStreak\<close>. \<^verbatim>\<open>StreakVisual({ streak })\<close> renders the
  number and a text chosen by its size; the card of a tracker on \<^verbatim>\<open>DailyTrackerPage\<close>
  passes it \<^verbatim>\<open>tracker.currentStreak || 0\<close>. \<^verbatim>\<open>TopStreakCard\<close> takes the maximum over
  \<^verbatim>\<open>mockTrackersData\<close> (\<^verbatim>\<open>Math.max()\<close> of no arguments is \<^verbatim>\<open>-Infinity\<close>, here
  \<open>None\<close>) and names the first tracker that has it. \<^verbatim>\<open>LinkedHabitPreview\<close> shows the
  streak of the habit a goal links to. Each is a function of the stored fields; none
  takes the date or writes anything.
\<close>

record streak_visual =
  aria_label :: string
  streak_count :: nat
  streak_text :: string

definition StreakVisual :: "nat \<Rightarrow> streak_visual" where
  "StreakVisual streak =
     (let streakText = (if streak = 0 then ''Start your streak!''
                        else if streak < 5 then ''Getting started!''
                        else ''On fire!'')
      in \<lparr>aria_label = ''Current streak: '' @ string_of_nat streak @ '' days'',
          streak_count = streak,
          streak_text = string_of_nat streak @ '' Day'' @ (if streak \<noteq> 1 then ''s'' else [])
                        @ '' Strong - '' @ streakText\<rparr>)"

record habit_card =
  card_todaysLog :: "checkin option"
  card_streak :: streak_visual
  card_use_token_disabled :: bool

definition habit_cards :: "date \<Rightarrow> tracker_page \<Rightarrow> habit_card list" where
  "habit_cards today s =
     map (\<lambda>t. \<lparr>card_todaysLog = todaysLog today t,
               card_streak = StreakVisual (currentStreak t),
               card_use_token_disabled =
                 (todaysLog today t \<noteq> None \<or> remaining (streakFreezes t) = 0)\<rparr>)
         (trackers s)"

definition topStreak :: "tracker list \<Rightarrow> nat option" where
  "topStreak ts = (case ts of [] \<Rightarrow> None | t # ts' \<Rightarrow> Some (fold max (map currentStreak ts') (currentStreak t)))"

record top_streak_card =
  stat_card_value :: string
  stat_card_context :: "string option"

definition TopStreakCard :: "tracker list \<Rightarrow> top_streak_card" where
  "TopStreakCard ts =
     (case topStreak ts of
        None \<Rightarrow> \<lparr>stat_card_value = ''-Infinity Days'', stat_card_context = None\<rparr>
      | Some n \<Rightarrow>
          \<lparr>stat_card_value = string_of_nat n @ '' Days'',
           stat_card_context = map_option tracker_name (find (\<lambda>t. currentStreak t = n) ts)\<rparr>)"

text \<open>\<^verbatim>\<open>goal?.linkedHabitId ? mockTrackersData.find(t => t.id === goal.linkedHabitId) :
  null\<close>, and the preview of the habit found.\<close>

definition linkedHabit :: "goal \<Rightarrow> tracker list \<Rightarrow> tracker option" where
  "linkedHabit g ts =
     (case linkedHabitId g of
        None \<Rightarrow> None
      | Some i \<Rightarrow> if i = [] then None else find (\<lambda>t. tracker_id t = i) ts)"

record linked_habit_preview =
  preview_name :: string
  preview_title :: string
  preview_streak :: nat

definition LinkedHabitPreview :: "tracker option \<Rightarrow> linked_habit_preview option" where
  "LinkedHabitPreview habit =
     (case habit of
        None \<Rightarrow> None
      | Some h \<Rightarrow>
          Some \<lparr>preview_name = tracker_name h,
                preview_title = ''Current Streak: '' @ string_of_nat (currentStreak h) @ '' days'',
                preview_streak = currentStreak h\<rparr>)"

text \<open>The number of log entries of a tracker that carry a given date.\<close>

definition entries_on :: "date \<Rightarrow> tracker \<Rightarrow> nat" where
  "entries_on d t = length (filter (\<lambda>l. checkin_date l = d) (logs t))"

subsection \<open>Weekly quest: parsing the provider's text\<close>

text \<open>
  A JavaScript string is a list of characters; the model covers the code units below 256
  (Latin-1), which is what \<open>char\<close> holds. \<^verbatim>\<open>trim\<close> removes white space and
  line terminators at both ends, the \<^verbatim>\<open>.\<close> of a regular expression matches every
  character but a line terminator, and \<^verbatim>\<open>toLowerCase\<close> maps the upper-case letters.
\<close>

record quest =
  quest_title :: string
  quest_description :: string
  relatedGoal :: string

definition is_line_terminator :: "char \<Rightarrow> bool" where
  "is_line_terminator c \<longleftrightarrow> c = CHR 0x0A \<or> c = CHR 0x0D"

definition is_white_space :: "char \<Rightarrow> bool" where
  "is_white_space c \<longleftrightarrow>
     c = CHR 0x09 \<or> c = CHR 0x0A \<or> c = CHR 0x0B \<or> c = CHR 0x0C \<or> c = CHR 0x0D \<or>
     c = CHR 0x20 \<or> c = CHR 0xA0"

definition trim :: "string \<Rightarrow> string" where
  "trim s = rev (dropWhile is_white_space (rev (dropWhile is_white_space s)))"

definition lower_char :: "char \<Rightarrow> char" where
  "lower_char c =
     (let n = (of_char c :: nat) in
      if (65 \<le> n \<and> n \<le> 90) \<or> (192 \<le> n \<and> n \<le> 222 \<and> n \<noteq> 215)
      then char_of (n + 32) else c)"

definition toLowerCase :: "string \<Rightarrow> string" where
  "toLowerCase s = map lower_char s"

text \<open>What follows the leftmost occurrence of \<open>pat\<close> in a string, if there is one.\<close>

fun after_first :: "string \<Rightarrow> string \<Rightarrow> string option" where
  "after_first pat [] = (if pat = [] then Some [] else None)"
| "after_first pat (c # cs) =
     (if prefix pat (c # cs) then Some (drop (length pat) (c # cs)) else after_first pat cs)"

text \<open>\<^verbatim>\<open>text.match(/<label>(.*)/)\<close>: \<open>None\<close> for \<^verbatim>\<open>null\<close>, else the capture group:
  the rest of the line after the leftmost occurrence of the label.\<close>

definition regex_capture :: "string \<Rightarrow> string \<Rightarrow> string option" where
  "regex_capture label s =
     map_option (takeWhile (\<lambda>c. \<not> is_line_terminator c)) (after_first label s)"

text \<open>\<^verbatim>\<open>s.includes(sub)\<close>\<close>

definition includes_str :: "string \<Rightarrow> string \<Rightarrow> bool" where
  "includes_str s sub \<longleftrightarrow> after_first sub s \<noteq> None"

text \<open>\<^verbatim>\<open>(g.progressPercent || 0) < 100\<close>\<close>

definition is_active :: "goal \<Rightarrow> bool" where
  "is_active g \<longleftrightarrow> (case progressPercent g of None \<Rightarrow> 0 | Some p \<Rightarrow> p) < 100"

text \<open>The \<^verbatim>\<open>catch\<close> block. \<^verbatim>\<open>Math.floor(Math.random() * activeGoals.length)\<close> is some
  index below the length; the parameter \<open>rnd\<close> stands for the random draw.\<close>

definition quest_catch_fallback :: "nat \<Rightarrow> goal list \<Rightarrow> quest" where
  "quest_catch_fallback rnd userGoals =
     (let activeGoals = filter is_active userGoals;
          randomGoal = (if length activeGoals > 0
                        then Some (activeGoals ! (rnd mod length activeGoals)) else None)
      in \<lparr>quest_title = ''Quest Idea!'',
          quest_description =
            ''Focus on making a solid leap forward in one of your goals this week. ''
            @ (case randomGoal of
                 Some g \<Rightarrow> ''Perhaps something for '' @ [CHR 0x27] @ title g @ [CHR 0x27] @ ''?''
               | None \<Rightarrow> ''You'' @ [CHR 0x27] @ ''ve got this!''),
          relatedGoal = (case randomGoal of Some g \<Rightarrow> title g | None \<Rightarrow> [])\<rparr>)"

text \<open>
  Lines 1052 to 1071 of \<^verbatim>\<open>getWeeklyQuest\<close> with the \<^verbatim>\<open>catch\<close> they run under, from the
  provider's \<^verbatim>\<open>response.text\<close> on. An undefined or empty trimmed text throws
  \<^verbatim>\<open>Error("Empty response from AI.")\<close>, which the \<^verbatim>\<open>catch\<close> turns into the fallback
  quest.
\<close>

definition parse_quest_response :: "nat \<Rightarrow> goal list \<Rightarrow> string option \<Rightarrow> quest" where
  "parse_quest_response rnd userGoals response_text =
     (let txt = (case response_text of None \<Rightarrow> [] | Some raw \<Rightarrow> trim raw) in
      if txt = [] then quest_catch_fallback rnd userGoals
      else
        let titleMatch = regex_capture ''Quest Title: '' txt;
            descriptionMatch = regex_capture ''Description: '' txt;
            relatedGoalMatch = regex_capture ''Related Goal: '' txt
        in case (titleMatch, descriptionMatch, relatedGoalMatch) of
             (Some t, Some d, Some r) \<Rightarrow>
               \<lparr>quest_title = trim t, quest_description = trim d, relatedGoal = trim r\<rparr>
           | _ \<Rightarrow>
               (let foundGoal =
                      find (\<lambda>g. includes_str (toLowerCase txt) (toLowerCase (title g))) userGoals
                in \<lparr>quest_title = ''Weekly Quest Suggestion'', quest_description = txt,
                    relatedGoal = (case foundGoal of Some g \<Rightarrow> title g
                                   | None \<Rightarrow> ''General'')\<rparr>))"

text \<open>The outcome of the call to the provider: it throws, or it answers with a text
  that may be undefined.\<close>

datatype provider_outcome = ProviderThrows | ProviderResponse "string option"

text \<open>\<^verbatim>\<open>titles.join(', ')\<close>\<close>

fun join_comma :: "string list \<Rightarrow> string" where
  "join_comma [] = []"
| "join_comma [x] = x"
| "join_comma (x # y # ys) = x @ '', '' @ join_comma (y # ys)"

definition getWeeklyQuest :: "bool \<Rightarrow> nat \<Rightarrow> goal list \<Rightarrow> provider_outcome \<Rightarrow> quest" where
  "getWeeklyQuest ai_configured rnd userGoals outcome =
     (if \<not> ai_configured then
        \<lparr>quest_title = ''Tech Offline!'',
         quest_description = ''Our AI is taking a break. How about you set a small step ''
            @ ''for one of your goals yourself this week?'',
         relatedGoal = []\<rparr>
      else if userGoals = [] then
        \<lparr>quest_title = ''No Goals Yet!'',
         quest_description = ''Add a goal to get your first weekly quest!'',
         relatedGoal = []\<rparr>
      else if join_comma (map title (filter is_active userGoals)) = [] then
        \<lparr>quest_title = ''All Goals Conquered!'',
         quest_description = ''Looks like you'' @ [CHR 0x27]
            @ ''ve completed all your current goals! Amazing! Add a new one for a fresh quest.'',
         relatedGoal = []\<rparr>
      else case outcome of
             ProviderThrows \<Rightarrow> quest_catch_fallback rnd userGoals
           | ProviderResponse response_text \<Rightarrow>
               parse_quest_response rnd userGoals response_text)"

text \<open>
  Two notions used to state what the parser returns, independent of how it searches.
  \<open>first_line_value label s v\<close>: \<open>v\<close> is the white-space-trimmed rest of the line after
  the leftmost occurrence of \<open>label\<close> in \<open>s\<close>. \<open>mentions g s\<close>: the title of the goal
  occurs in \<open>s\<close>, letter case ignored.
\<close>

definition first_line_value :: "string \<Rightarrow> string \<Rightarrow> string \<Rightarrow> bool" where
  "first_line_value label s v \<longleftrightarrow>
     (\<exists>pre rest. s = pre @ label @ rest \<and>
        (\<forall>pre' rest'. s = pre' @ label @ rest' \<longrightarrow> length pre \<le> length pre') \<and>
        v = trim (takeWhile (\<lambda>c. \<not> is_line_terminator c) rest))"

definition mentions :: "goal \<Rightarrow> string \<Rightarrow> bool" where
  "mentions g s \<longleftrightarrow> sublist (toLowerCase (title g)) (toLowerCase s)"

definition first_mentioned_title :: "goal list \<Rightarrow> string \<Rightarrow> string \<Rightarrow> bool" where
  "first_mentioned_title gs s v \<longleftrightarrow>
     (\<exists>k < length gs. mentions (gs ! k) s \<and> (\<forall>j < k. \<not> mentions (gs ! j) s) \<and>
        v = title (gs ! k))"

text \<open>A goal list and provider texts to run the parser on.\<close>

definition python_goal :: goal where
  "python_goal =
     \<lparr>goal_id = ''py'', title = ''Learn Python'', goal_type = Generic, modules = None,
      progressPercent = Some 10, statusText = None, linkedHabitId = None\<rparr>"

definition labelled_text :: string where
  "labelled_text =
     ''Quest Title: A'' @ [CHR 0x0A] @ ''Description: B'' @ [CHR 0x0A] @ ''Related Goal: C''"

definition unlabelled_text :: string where
  "unlabelled_text = ''random unstructured text mentioning Learn Python''"

subsection \<open>Concrete states\<close>

text \<open>The goal \<^verbatim>\<open>React101\<close> of \<^verbatim>\<open>mockGoalsData\<close>.\<close>

definition mk_module :: "string \<Rightarrow> string \<Rightarrow> module_status \<Rightarrow> bool \<Rightarrow> module" where
  "mk_module i n st v = \<lparr>module_id = i, mod_name = n, status = st, verified = v\<rparr>"

definition React101 :: goal where
  "React101 =
     \<lparr>goal_id = ''React101'', title = ''Learn React Fundamentals'', goal_type = Learning,
      modules = Some
        [mk_module ''m1'' ''Introduction to JSX'' Completed True,
         mk_module ''m2'' ''Components and Props'' Completed False,
         mk_module ''m3'' ''State and Lifecycle'' Pending False,
         mk_module ''m4'' ''Handling Events'' Pending False,
         mk_module ''m5'' ''Conditional Rendering'' Pending False],
      progressPercent = None, statusText = None, linkedHabitId = Some ''h1''\<rparr>"

text \<open>A Learning goal with the three modules verified, completed but not verified,
  pending.\<close>

definition three_module_goal :: goal where
  "three_module_goal =
     \<lparr>goal_id = ''g3'', title = ''Three modules'', goal_type = Learning,
      modules = Some
        [mk_module ''a'' ''first'' Completed True,
         mk_module ''b'' ''second'' Completed False,
         mk_module ''c'' ''third'' Pending False],
      progressPercent = None, statusText = None, linkedHabitId = None\<rparr>"

text \<open>A Learning goal with twenty modules: eleven verified, one completed but not
  verified, eight pending.\<close>

definition twenty_module_goal :: goal where
  "twenty_module_goal =
     \<lparr>goal_id = ''g20'', title = ''Twenty modules'', goal_type = Learning,
      modules = Some
        (replicate 11 (mk_module ''v'' ''verified'' Completed True)
         @ [mk_module ''s'' ''self-completed'' Completed False]
         @ replicate 8 (mk_module ''p'' ''pending'' Pending False)),
      progressPercent = None, statusText = None, linkedHabitId = None\<rparr>"

text \<open>The two trackers of \<^verbatim>\<open>mockTrackersData\<close> (the screenshot's data URL shortened),
  as the page has them after mounting, with no input typed in.\<close>

definition tracker_h1 :: tracker where
  "tracker_h1 =
     \<lparr>tracker_id = ''h1'', tracker_name = ''Code one problem'',
      currentStreak = 5, longestStreak = 15,
      streakFreezes = \<lparr>remaining = 1, total = 1\<rparr>,
      logs =
        [\<lparr>checkin_date = ''2024-07-22'', checkin_status = LogCompleted,
          checkin_proof = \<lparr>proof_type = Link,
            proof_value = Some ''https://leetcode.com/problems/two-sum/'',
            proof_comment = Some ''Classic one to warm up.''\<rparr>\<rparr>,
         \<lparr>checkin_date = ''2024-07-21'', checkin_status = LogCompleted,
          checkin_proof = \<lparr>proof_type = Screenshot,
            proof_value = Some ''data:image/svg+xml;base64,PHN2Zy4='',
            proof_comment = Some ''Finished the daily challenge.''\<rparr>\<rparr>,
         \<lparr>checkin_date = ''2024-07-20'', checkin_status = LogCompleted,
          checkin_proof = \<lparr>proof_type = Unverified, proof_value = None,
            proof_comment = Some ''Just a quick one today.''\<rparr>\<rparr>,
         \<lparr>checkin_date = ''2024-07-18'', checkin_status = LogFrozen,
          checkin_proof = \<lparr>proof_type = Frozen, proof_value = None,
            proof_comment = Some ''Used a freeze.''\<rparr>\<rparr>]\<rparr>"

definition tracker_h2 :: tracker where
  "tracker_h2 =
     \<lparr>tracker_id = ''h2'', tracker_name = ''Learn 5 vocab words'',
      currentStreak = 0, longestStreak = 12,
      streakFreezes = \<lparr>remaining = 0, total = 1\<rparr>,
      logs = []\<rparr>"

definition mounted_page :: tracker_page where
  "mounted_page =
     \<lparr>trackers = [tracker_h1, tracker_h2], inputs = (\<lambda>_. None),
      mockTrackersData = [tracker_h1, tracker_h2], mockCheckinsLog = [],
      page_ledger = initial_ledger\<rparr>"

text \<open>Two calls of \<^verbatim>\<open>handleCheckIn\<close> with the same arguments, one after the other.\<close>

definition check_in_twice ::
  "date \<Rightarrow> string \<Rightarrow> proof_type \<Rightarrow> int \<Rightarrow> tracker_page \<Rightarrow> string + tracker_page" where
  "check_in_twice today trackerId ty xp_amount s =
     (case handleCheckIn today trackerId ty xp_amount s of
        Inl msg \<Rightarrow> Inl msg
      | Inr s1 \<Rightarrow> handleCheckIn today trackerId ty xp_amount s1)"

text \<open>The tracker with a given id, as \<^verbatim>\<open>trackers.find(t => t.id === id)\<close>.\<close>

definition find_tracker :: "string \<Rightarrow> tracker_page \<Rightarrow> tracker option" where
  "find_tracker i s = find (\<lambda>t. tracker_id t = i) (trackers s)"

text \<open>A ledger whose XP log holds sixty entries, none of them dated like a calendar
  day.\<close>

definition sixty_entry_ledger :: ledger where
  "sixty_entry_ledger =
     \<lparr>mockUserProfile = initial_profile,
      mockXpLog = map (\<lambda>i. \<lparr>log_date = ''day '' @ string_of_nat i, log_xp = int i\<rparr>) [0..<60]\<rparr>"

text \<open>
  The goal page mounted on \<^verbatim>\<open>React101\<close>, and two runs of it. In the first the user
  opens the dialog on module \<^verbatim>\<open>m3\<close>, clicks \<^verbatim>\<open>Mark as Self-Completed\<close>, closes the
  dialog by a click on the overlay and clicks \<^verbatim>\<open>I did it!\<close> on module \<^verbatim>\<open>m4\<close>, all
  before the timer of 1800 milliseconds fires; then it fires. In the second the user
  submits an answer for \<^verbatim>\<open>m3\<close>, closes the dialog, submits an answer for \<^verbatim>\<open>m2\<close>, and
  the deferred call for \<^verbatim>\<open>m2\<close> runs before the one for \<^verbatim>\<open>m3\<close> (each is set up only
  once the provider's acknowledgment has arrived).
\<close>

definition React101_page :: goal_page where
  "React101_page = mount_goal_page [React101] ''React101''"

definition late_self_completion :: "page_event list" where
  "late_self_completion =
     [OpenVerification ''m3'', MarkSelfCompleted, ClickOverlay, ClickIDidIt ''m4'']"

definition late_verification :: "page_event list" where
  "late_verification =
     [OpenVerification ''m3'', SubmitToAI, ClickOverlay, OpenVerification ''m2'', SubmitToAI,
      DeferredCallRuns 1]"

section \<open>Properties\<close>

subsection \<open>JavaScript numbers\<close>

lemma bit_length_pos: "0 < n \<Longrightarrow> bit_length n = Suc (bit_length (n div 2))"
  by (subst bit_length.simps) simp

lemma bit_length_nonpos: "n \<le> 0 \<Longrightarrow> bit_length n = 0"
  by (subst bit_length.simps) simp

lemma bit_length_upper: "0 < n \<Longrightarrow> n < 2 ^ bit_length n"
proof (induction n rule: bit_length.induct)
  case (1 n)
  show ?case
  proof (cases "n div 2 \<le> 0")
    case True
    with "1.prems" have "n = 1" by linarith
    then show ?thesis by (simp add: bit_length_pos bit_length_nonpos)
  next
    case False
    then have pos: "0 < n div 2" by simp
    from "1.prems" have "\<not> n \<le> 0" by simp
    from "1.IH" [OF this pos] have "n div 2 < 2 ^ bit_length (n div 2)" .
    then have "n < 2 * 2 ^ bit_length (n div 2)" by linarith
    with "1.prems" show ?thesis by (simp add: bit_length_pos)
  qed
qed

lemma bit_length_lower: "0 < n \<Longrightarrow> 2 ^ (bit_length n - 1) \<le> n"
proof (induction n rule: bit_length.induct)
  case (1 n)
  show ?case
  proof (cases "n div 2 \<le> 0")
    case True
    with "1.prems" have "n = 1" by linarith
    then show ?thesis by (simp add: bit_length_pos bit_length_nonpos)
  next
    case False
    then have pos: "0 < n div 2" by simp
    from "1.prems" have "\<not> n \<le> 0" by simp
    from "1.IH" [OF this pos] have ih: "2 ^ (bit_length (n div 2) - 1) \<le> n div 2" .
    from pos have "0 < bit_length (n div 2)" by (simp add: bit_length_pos)
    then obtain b where b: "bit_length (n div 2) = Suc b" by (cases "bit_length (n div 2)") auto
    with ih have "2 * 2 ^ b \<le> 2 * (n div 2)" by simp
    also have "\<dots> \<le> n" by linarith
    finally show ?thesis using "1.prems" b by (simp add: bit_length_pos)
  qed
qed

lemma bit_length_positive: "0 < n \<Longrightarrow> 0 < bit_length n"
  by (simp add: bit_length_pos)

lemma bit_length_one: "bit_length 1 = 1"
  by (simp add: bit_length_pos bit_length_nonpos)

lemma bit_length_mono:
  assumes "0 < m" and "m \<le> n"
  shows "bit_length m \<le> bit_length n"
proof -
  from assms have n: "0 < n" by simp
  have "(2::int) ^ (bit_length m - 1) \<le> m" using assms(1) by (rule bit_length_lower)
  also have "\<dots> \<le> n" by fact
  also have "\<dots> < 2 ^ bit_length n" using n by (rule bit_length_upper)
  finally have "bit_length m - 1 < bit_length n" by (simp add: power_strict_increasing_iff)
  then show ?thesis by simp
qed

text \<open>The binary exponent and the rounding of a positive integer.\<close>

lemma binary_exponent_int:
  "0 < n \<Longrightarrow> binary_exponent (n, 1) = int (bit_length n) - 1"
  using bit_length_lower [of n] bit_length_positive [of n]
  by (simp add: binary_exponent_def Let_def bit_length_one nat_diff_distrib')

lemma round_pos_small:
  assumes "0 < n" and "bit_length n \<le> 53"
  shows "int_value (round_pos (n, 1)) = n"
proof -
  from assms have e: "binary_exponent (n, 1) - 52 = int (bit_length n) - 53"
    by (simp add: binary_exponent_int)
  from assms bit_length_positive [of n] have m: "max (int (bit_length n) - 53) (- 1074) = int (bit_length n) - 53"
    by simp
  show ?thesis
  proof (cases "bit_length n = 53")
    case True
    then show ?thesis
      by (simp add: round_pos_def Let_def e int_value_def round_half_even_def)
  next
    case False
    with assms have "int (bit_length n) - 53 < 0" by simp
    then show ?thesis
      by (simp add: round_pos_def Let_def e m int_value_def round_half_even_def)
  qed
qed


lemma round_pos_large:
  assumes "0 < n" and "53 < bit_length n"
  shows "round_pos (n, 1) =
           (round_half_even (n, 2 ^ (bit_length n - 53)) * 2 ^ (bit_length n - 53), 1)"
proof -
  from assms have e: "binary_exponent (n, 1) - 52 = int (bit_length n) - 53"
    by (simp add: binary_exponent_int)
  from assms have m: "max (int (bit_length n) - 53) (- 1074) = int (bit_length n) - 53"
    by simp
  from assms have p: "0 \<le> int (bit_length n) - 53" by simp
  from assms have nn: "nat (int (bit_length n) - 53) = bit_length n - 53" by simp
  from assms have c: "53 \<le> bit_length n" by simp
  show ?thesis
    by (simp add: round_pos_def Let_def e m c nn)
qed

lemma int_value_binary64_pos:
  assumes "0 < n"
  shows "int_value (binary64 (n, 1)) =
           (if bit_length n \<le> 53 then n
            else round_half_even (n, 2 ^ (bit_length n - 53)) * 2 ^ (bit_length n - 53))"
  using assms
  by (simp add: binary64_def round_pos_small round_pos_large) (simp add: int_value_def)

lemma round_half_even_bounds:
  assumes "0 < d"
  shows "a div d \<le> round_half_even (a, d)" and "round_half_even (a, d) \<le> a div d + 1"
  by (simp_all add: round_half_even_def Let_def)

lemma round_half_even_mono:
  assumes d: "0 < d" and ab: "a \<le> b"
  shows "round_half_even (a, d) \<le> round_half_even (b, d)"
proof (cases "a div d < b div d")
  case True
  have "round_half_even (a, d) \<le> a div d + 1" using d by (rule round_half_even_bounds)
  also have "\<dots> \<le> b div d" using True by simp
  also have "\<dots> \<le> round_half_even (b, d)" using d by (rule round_half_even_bounds)
  finally show ?thesis .
next
  case False
  moreover have "a div d \<le> b div d" using ab d by (simp add: zdiv_mono1)
  ultimately have eq: "a div d = b div d" by simp
  have "a mod d = a - (a div d) * d" "b mod d = b - (b div d) * d"
    by (simp_all add: minus_div_mult_eq_mod)
  with eq ab have "a mod d \<le> b mod d" by simp
  with eq show ?thesis by (auto simp: round_half_even_def Let_def)
qed

lemma div_lower: "0 < (d::int) \<Longrightarrow> k * d \<le> n \<Longrightarrow> k \<le> n div d"
proof -
  assume d: "0 < d" and le: "k * d \<le> n"
  have "(k * d) div d \<le> n div d" using le d by (rule zdiv_mono1)
  with d show ?thesis by simp
qed

lemma div_upper: "0 < (d::int) \<Longrightarrow> n < u * d \<Longrightarrow> n div d < u"
proof (rule ccontr)
  assume d: "0 < d" and lt: "n < u * d" and c: "\<not> n div d < u"
  then have "u * d \<le> (n div d) * d" by (simp add: mult_right_mono)
  also have "\<dots> = n - n mod d" by (simp add: minus_mod_eq_div_mult)
  also have "\<dots> \<le> n" using d by simp
  finally show False using lt by simp
qed

lemma int_value_binary64_bounds:
  assumes "0 < n"
  shows "2 ^ (bit_length n - 1) \<le> int_value (binary64 (n, 1))"
    and "int_value (binary64 (n, 1)) \<le> 2 ^ bit_length n"
proof -
  show "2 ^ (bit_length n - 1) \<le> int_value (binary64 (n, 1))"
  proof (cases "bit_length n \<le> 53")
    case True
    with assms bit_length_lower [OF assms] show ?thesis by (simp add: int_value_binary64_pos)
  next
    case False
    define j where "j = bit_length n - 53"
    define d :: int where "d = 2 ^ j"
    define K :: int where "K = 2 ^ 52"
    have d: "0 < d" by (simp add: d_def)
    from False have "bit_length n - 1 = 52 + j" by (simp add: j_def)
    then have pw: "(2::int) ^ (bit_length n - 1) = K * d"
      by (simp only: K_def d_def power_add)
    from bit_length_lower [OF assms] have "K * d \<le> n" by (simp only: pw)
    with d have "K \<le> n div d" by (rule div_lower)
    also have "\<dots> \<le> round_half_even (n, d)" using d by (rule round_half_even_bounds)
    finally have "K * d \<le> round_half_even (n, d) * d" using d by simp
    moreover from False assms
    have "int_value (binary64 (n, 1)) = round_half_even (n, d) * d"
      by (simp add: int_value_binary64_pos d_def j_def)
    ultimately show ?thesis by (simp only: pw)
  qed
  show "int_value (binary64 (n, 1)) \<le> 2 ^ bit_length n"
  proof (cases "bit_length n \<le> 53")
    case True
    with assms bit_length_upper [OF assms] show ?thesis by (simp add: int_value_binary64_pos)
  next
    case False
    define j where "j = bit_length n - 53"
    define d :: int where "d = 2 ^ j"
    define U :: int where "U = 2 ^ 53"
    have d: "0 < d" by (simp add: d_def)
    from False have "bit_length n = 53 + j" by (simp add: j_def)
    then have pw: "(2::int) ^ bit_length n = U * d"
      by (simp only: U_def d_def power_add)
    from bit_length_upper [OF assms] have "n < U * d" by (simp only: pw)
    with d have "n div d < U" by (rule div_upper)
    then have "round_half_even (n, d) \<le> U"
      using round_half_even_bounds(2) [OF d, of n] by simp
    then have "round_half_even (n, d) * d \<le> U * d" using d by simp
    moreover from False assms
    have "int_value (binary64 (n, 1)) = round_half_even (n, d) * d"
      by (simp add: int_value_binary64_pos d_def j_def)
    ultimately show ?thesis by (simp only: pw)
  qed
qed

lemma int_value_binary64_mono_pos:
  assumes m: "0 < m" and mn: "m \<le> n"
  shows "int_value (binary64 (m, 1)) \<le> int_value (binary64 (n, 1))"
proof -
  from m mn have n: "0 < n" by simp
  have bl: "bit_length m \<le> bit_length n" using m mn by (rule bit_length_mono)
  show ?thesis
  proof (cases "bit_length m = bit_length n")
    case True
    show ?thesis
    proof (cases "bit_length n \<le> 53")
      case small: True
      with True m n mn show ?thesis by (simp add: int_value_binary64_pos)
    next
      case False
      have "round_half_even (m, 2 ^ (bit_length n - 53)) \<le>
            round_half_even (n, 2 ^ (bit_length n - 53))"
        by (rule round_half_even_mono) (simp, rule mn)
      then have "round_half_even (m, 2 ^ (bit_length n - 53)) * 2 ^ (bit_length n - 53) \<le>
            round_half_even (n, 2 ^ (bit_length n - 53)) * 2 ^ (bit_length n - 53)"
        by simp
      with False True m n show ?thesis by (simp add: int_value_binary64_pos)
    qed
  next
    case False
    with bl have "bit_length m \<le> bit_length n - 1" by simp
    then have "(2::int) ^ bit_length m \<le> 2 ^ (bit_length n - 1)"
      by (simp add: power_increasing)
    with int_value_binary64_bounds(2) [OF m] int_value_binary64_bounds(1) [OF n]
    show ?thesis by linarith
  qed
qed

lemma int_value_binary64_positive:
  "0 < n \<Longrightarrow> 0 < int_value (binary64 (n, 1))"
proof -
  assume n: "0 < n"
  have "(0::int) < 2 ^ (bit_length n - 1)" by simp
  with int_value_binary64_bounds(1) [OF n] show ?thesis by linarith
qed

lemma int_value_binary64_zero: "int_value (binary64 (0, 1)) = 0"
  by (simp add: binary64_def int_value_def)

lemma round_pos_divides:
  assumes "0 < n"
  shows "fst (round_pos (n, 1)) = int_value (round_pos (n, 1)) * snd (round_pos (n, 1))"
proof (cases "bit_length n \<le> 53")
  case True
  show ?thesis
  proof (cases "bit_length n = 53")
    case b: True
    from assms b have e: "binary_exponent (n, 1) - 52 = 0" by (simp add: binary_exponent_int)
    show ?thesis by (simp add: round_pos_def Let_def e int_value_def)
  next
    case False
    with True have lt: "int (bit_length n) - 53 < 0" by simp
    from assms have e: "binary_exponent (n, 1) - 52 = int (bit_length n) - 53"
      by (simp add: binary_exponent_int)
    from bit_length_positive [OF assms]
    have m: "max (int (bit_length n) - 53) (- 1074) = int (bit_length n) - 53" by simp
    from lt show ?thesis
      by (simp add: round_pos_def Let_def e m int_value_def round_half_even_def)
  qed
next
  case False
  with assms show ?thesis by (simp add: round_pos_large int_value_def)
qed

lemma neg_mult_div: "(d::int) \<noteq> 0 \<Longrightarrow> (- (a * d)) div d = - a"
proof -
  assume d: "d \<noteq> 0"
  have "- (a * d) = (- a) * d" by simp
  with d show ?thesis by (metis nonzero_mult_div_cancel_right)
qed

lemma int_value_binary64_neg:
  assumes "n < 0"
  shows "int_value (binary64 (n, 1)) = - int_value (binary64 (- n, 1))"
proof -
  from assms have pos: "0 < - n" by simp
  let ?r = "round_pos (- n, 1)"
  have sn: "0 < snd ?r"
    by (simp add: round_pos_def Let_def)
  have "int_value (- fst ?r, snd ?r) = (- (int_value ?r * snd ?r)) div snd ?r"
    using round_pos_divides [OF pos] by (simp add: int_value_def)
  also have "\<dots> = - int_value ?r" using sn by (intro neg_mult_div) simp
  finally show ?thesis using assms pos by (simp add: binary64_def Let_def)
qed

lemma int_value_binary64_mono:
  assumes "m \<le> n"
  shows "int_value (binary64 (m, 1)) \<le> int_value (binary64 (n, 1))"
proof -
  consider "0 < m" | "m = 0" | "m < 0" "n < 0" | "m < 0" "n = 0" | "m < 0" "0 < n"
    using assms by linarith
  then show ?thesis
  proof cases
    case 1
    then show ?thesis using assms by (rule int_value_binary64_mono_pos)
  next
    case 2
    show ?thesis
    proof (cases "n = 0")
      case True
      with 2 show ?thesis by simp
    next
      case False
      with 2 assms have "0 < n" by simp
      from int_value_binary64_positive [OF this] 2 show ?thesis
        by (simp add: int_value_binary64_zero)
    qed
  next
    case 3
    then have "0 < - n" "- n \<le> - m" using assms by simp_all
    then have "int_value (binary64 (- n, 1)) \<le> int_value (binary64 (- m, 1))"
      by (rule int_value_binary64_mono_pos)
    with 3 show ?thesis by (simp add: int_value_binary64_neg)
  next
    case 4
    then have "0 < - m" by simp
    from int_value_binary64_positive [OF this] 4 show ?thesis
      by (simp add: int_value_binary64_neg int_value_binary64_zero)
  next
    case 5
    then have "0 < - m" by simp
    from int_value_binary64_positive [OF this] int_value_binary64_positive [OF 5(2)] 5
    show ?thesis by (simp add: int_value_binary64_neg)
  qed
qed

lemma js_add_eq: "js_add x y = int_value (binary64 (x + y, 1))"
  by (simp add: js_add_def num_add_def)

lemma js_add_mono: "y \<le> z \<Longrightarrow> js_add x y \<le> js_add x z"
  by (simp add: js_add_eq int_value_binary64_mono)

lemma js_add_exact:
  assumes "- (2 ^ 53) < x + y" and "x + y < 2 ^ 53"
  shows "js_add x y = x + y"
proof -
  have small: "int_value (binary64 (n, 1)) = n" if "0 < n" "n < 2 ^ 53" for n :: int
  proof -
    have "(2::int) ^ (bit_length n - 1) \<le> n" using that(1) by (rule bit_length_lower)
    also have "\<dots> < 2 ^ 53" by fact
    finally have "bit_length n - 1 < 53" by (simp only: power_strict_increasing_iff) 
    then have "bit_length n \<le> 53" by simp
    with that show ?thesis by (simp add: int_value_binary64_pos)
  qed
  consider "0 < x + y" | "x + y = 0" | "x + y < 0" by linarith
  then show ?thesis
  proof cases
    case 1
    with assms show ?thesis by (simp add: js_add_eq small)
  next
    case 2
    then show ?thesis by (simp add: js_add_eq int_value_binary64_zero)
  next
    case 3
    with assms have "0 < - (x + y)" "- (x + y) < 2 ^ 53" by simp_all
    then have "int_value (binary64 (- (x + y), 1)) = - (x + y)" by (rule small)
    with 3 show ?thesis by (simp add: js_add_eq int_value_binary64_neg)
  qed
qed

lemma js_add_nondecreasing:
  assumes "is_js_integer x" and "0 \<le> y"
  shows "x \<le> js_add x y"
proof -
  from assms(1) have "x = js_add x 0" by (simp add: is_js_integer_def)
  also have "\<dots> \<le> js_add x y" using assms(2) by (rule js_add_mono)
  finally show ?thesis .
qed

lemma js_add_nonincreasing:
  assumes "is_js_integer x" and "y \<le> 0"
  shows "js_add x y \<le> x"
proof -
  have "js_add x y \<le> js_add x 0" using assms(2) by (rule js_add_mono)
  with assms(1) show ?thesis by (simp add: is_js_integer_def)
qed

subsection \<open>Leveling ledger\<close>

lemma check_unlock_xp_level [simp]:
  "xp (check_unlock p u) = xp p" "level (check_unlock p u) = level p"
  by (simp_all add: check_unlock_def)

lemma foldl_check_unlock_xp_level:
  "xp (foldl check_unlock p us) = xp p \<and> level (foldl check_unlock p us) = level p"
  by (induction us arbitrary: p) simp_all

lemma check_unlocks_xp [simp]: "xp (check_unlocks p) = xp p"
  by (simp add: check_unlocks_def foldl_check_unlock_xp_level)

lemma check_unlocks_level [simp]: "level (check_unlocks p) = level p"
  by (simp add: check_unlocks_def foldl_check_unlock_xp_level)

lemma check_level_up_xp [simp]: "xp (check_level_up p) = xp p"
  by (simp add: check_level_up_def Let_def split: option.splits)

lemma check_level_up_level:
  "level (check_level_up p) = level p \<or> level (check_level_up p) = level p + 1"
  by (simp add: check_level_up_def Let_def split: option.splits)

lemma awardXp_xp:
  "xp (mockUserProfile (awardXp today amount s)) =
     (if amount = 0 then xp (mockUserProfile s) else js_add (xp (mockUserProfile s)) amount)"
  by (simp add: awardXp_def Let_def)

lemma awardXp_xp_exact:
  assumes "- (2 ^ 53) < xp (mockUserProfile s) + amount"
    and "xp (mockUserProfile s) + amount < 2 ^ 53"
  shows "xp (mockUserProfile (awardXp today amount s)) = xp (mockUserProfile s) + amount"
  using assms by (simp add: awardXp_xp js_add_exact)

lemma awardXp_level_mono:
  "level (mockUserProfile s) \<le> level (mockUserProfile (awardXp today amount s))"
proof (cases "amount = 0")
  case True
  then show ?thesis by (simp add: awardXp_def)
next
  case False
  let ?p1 = "(mockUserProfile s)\<lparr>xp := js_add (xp (mockUserProfile s)) amount\<rparr>"
  have "level (check_level_up ?p1) = level ?p1 \<or> level (check_level_up ?p1) = level ?p1 + 1"
    by (rule check_level_up_level)
  then have "level ?p1 \<le> level (check_level_up ?p1)" by auto
  with False show ?thesis by (simp add: awardXp_def Let_def)
qed

lemma findIndex_less: "findIndex P xs = Some i \<Longrightarrow> i < length xs"
  by (induction xs arbitrary: i) (auto split: if_splits)

lemma findIndex_None_iff: "findIndex P xs = None \<longleftrightarrow> (\<forall>x \<in> set xs. \<not> P x)"
  by (induction xs) auto

lemma length_update_xp_log:
  "length (update_xp_log today v lg) \<le> Suc (length lg)"
  by (simp add: update_xp_log_def split: option.splits)

lemma length_shift_if_long: "length lg \<le> 61 \<Longrightarrow> length (shift_if_long lg) \<le> 60"
  by (auto simp: shift_if_long_def)

lemma js_add_0_300: "js_add 0 300 = 300"
  by (simp add: js_add_exact)

text \<open>
  Claim C1 says that after \<^verbatim>\<open>awardXp\<close> the level is the largest level of the table
  whose threshold is at most the experience, so that one call awarding 300 XP to a user
  at level 1 with 0 XP ends at level 3. The level-up block tests the next level only, once:
  the call below ends at level 2 with 300 XP, although level 3 starts at 250.
\<close>

theorem awardXp_single_level_step:
  "level (mockUserProfile (awardXp ''2024-07-23'' 300 fresh_ledger)) = 2 \<and>
   xp (mockUserProfile (awardXp ''2024-07-23'' 300 fresh_ledger)) = 300 \<and>
   LEVEL_THRESHOLDS 3 = Some 250"
  by (simp add: awardXp_def fresh_ledger_def check_level_up_def LEVEL_THRESHOLDS_def Let_def
      js_add_0_300)

text \<open>
  Claim C8 says that for all amounts \<open>a1, a2 \<ge> 0\<close> awarded one after the other the final
  experience is the initial experience plus \<open>a1\<close> plus \<open>a2\<close>. The sums are binary64
  sums: from 85 XP, awarding \<open>2 ^ 53\<close> and then 1 ends at 9007199254741076, two below
  the exact sum.
\<close>

theorem awardXp_sequential_counterexample:
  "xp (mockUserProfile
         (awardXp ''2024-07-23'' 1 (awardXp ''2024-07-23'' 9007199254740992 initial_ledger)))
     = 9007199254741076 \<and>
   xp (mockUserProfile initial_ledger) + 9007199254740992 + 1 = 9007199254741078"
  by code_simp

text \<open>
  Claim C8 as the code has it: for amounts \<open>a1, a2 \<ge> 0\<close> awarded one after the other (on
  whatever dates), when the initial experience is above \<open>- 2 ^ 53\<close> and the exact sum is
  below \<open>2 ^ 53\<close> (the range in which every integer is a binary64 value), the final
  experience is the initial experience plus \<open>a1\<close> plus \<open>a2\<close>; and for all amounts the
  level after the two calls is at least the level before.
\<close>

theorem awardXp_sequential:
  "(0 \<le> a1 \<and> 0 \<le> a2 \<and> - (2 ^ 53) < xp (mockUserProfile s) \<and>
    xp (mockUserProfile s) + a1 + a2 < 2 ^ 53 \<longrightarrow>
      xp (mockUserProfile (awardXp d2 a2 (awardXp d1 a1 s))) = xp (mockUserProfile s) + a1 + a2) \<and>
   level (mockUserProfile s) \<le> level (mockUserProfile (awardXp d2 a2 (awardXp d1 a1 s)))"
proof (intro conjI impI)
  assume a: "0 \<le> a1 \<and> 0 \<le> a2 \<and> - (2 ^ 53) < xp (mockUserProfile s) \<and>
    xp (mockUserProfile s) + a1 + a2 < 2 ^ 53"
  then have first: "xp (mockUserProfile (awardXp d1 a1 s)) = xp (mockUserProfile s) + a1"
    by (intro awardXp_xp_exact) simp_all
  from a have "xp (mockUserProfile (awardXp d2 a2 (awardXp d1 a1 s))) =
      xp (mockUserProfile (awardXp d1 a1 s)) + a2"
    by (intro awardXp_xp_exact) (simp_all add: first)
  with first show "xp (mockUserProfile (awardXp d2 a2 (awardXp d1 a1 s))) =
      xp (mockUserProfile s) + a1 + a2" by simp
next
  have "level (mockUserProfile s) \<le> level (mockUserProfile (awardXp d1 a1 s))"
    by (rule awardXp_level_mono)
  also have "\<dots> \<le> level (mockUserProfile (awardXp d2 a2 (awardXp d1 a1 s)))"
    by (rule awardXp_level_mono)
  finally show "level (mockUserProfile s) \<le>
      level (mockUserProfile (awardXp d2 a2 (awardXp d1 a1 s)))" .
qed

text \<open>The source's initial profile (85 XP, level 1), awarded 10 and then 25 XP.\<close>

theorem awardXp_sequential_witness:
  "xp (mockUserProfile (awardXp ''2024-07-24'' 25 (awardXp ''2024-07-23'' 10 initial_ledger)))
     = 120 \<and>
   level initial_profile \<le>
     level (mockUserProfile (awardXp ''2024-07-24'' 25 (awardXp ''2024-07-23'' 10 initial_ledger)))"
  using awardXp_sequential [where ?a1.0 = 10 and ?a2.0 = 25 and ?d1.0 = "''2024-07-23''"
      and ?d2.0 = "''2024-07-24''" and s = initial_ledger]
  by (simp add: initial_ledger_def initial_profile_def)

text \<open>
  Claim C9 says that a negative amount is rejected or clamped to 0, so that no call
  decreases the experience. \<^verbatim>\<open>awardXp\<close> has no test of the sign: awarding \<open>- 5\<close> to
  the initial profile takes the experience from 85 to 80.
\<close>

theorem awardXp_negative_counterexample:
  "xp (mockUserProfile (awardXp ''2024-07-23'' (- 5) initial_ledger)) = 80 \<and>
   xp (mockUserProfile initial_ledger) = 85"
  by (simp add: awardXp_xp js_add_exact initial_ledger_def initial_profile_def)

text \<open>
  Claim C9 as the code has it: a call with an amount \<open>\<ge> 0\<close> never decreases the
  experience (the experience being a number a JavaScript variable can hold); a negative
  amount is neither rejected nor clamped but added, so that, when the experience is below
  \<open>2 ^ 53\<close> and the sum above \<open>- 2 ^ 53\<close>, the experience after the call is the
  experience before plus the amount.
\<close>

theorem awardXp_adds_amount:
  "(is_js_integer (xp (mockUserProfile s)) \<and> 0 \<le> amount \<longrightarrow>
      xp (mockUserProfile s) \<le> xp (mockUserProfile (awardXp today amount s))) \<and>
   (amount < 0 \<and> xp (mockUserProfile s) < 2 ^ 53 \<and>
    - (2 ^ 53) < xp (mockUserProfile s) + amount \<longrightarrow>
      xp (mockUserProfile (awardXp today amount s)) = xp (mockUserProfile s) + amount)"
proof (intro conjI impI)
  assume "is_js_integer (xp (mockUserProfile s)) \<and> 0 \<le> amount"
  then show "xp (mockUserProfile s) \<le> xp (mockUserProfile (awardXp today amount s))"
    by (simp add: awardXp_xp js_add_nondecreasing)
next
  assume "amount < 0 \<and> xp (mockUserProfile s) < 2 ^ 53 \<and>
    - (2 ^ 53) < xp (mockUserProfile s) + amount"
  then show "xp (mockUserProfile (awardXp today amount s)) = xp (mockUserProfile s) + amount"
    by (intro awardXp_xp_exact) simp_all
qed

text \<open>Both cases on the initial profile: amounts 10 and \<open>- 5\<close>.\<close>

theorem awardXp_adds_amount_witness:
  "is_js_integer (xp (mockUserProfile initial_ledger)) \<and>
   xp (mockUserProfile initial_ledger) \<le>
     xp (mockUserProfile (awardXp ''2024-07-23'' 10 initial_ledger)) \<and>
   xp (mockUserProfile (awardXp ''2024-07-23'' (- 5) initial_ledger)) = 85 + (- 5)"
proof -
  have j: "is_js_integer (xp (mockUserProfile initial_ledger))"
    by (simp add: is_js_integer_def js_add_exact initial_ledger_def initial_profile_def)
  have x: "xp (mockUserProfile initial_ledger) = 85"
    by (simp add: initial_ledger_def initial_profile_def)
  from awardXp_adds_amount [where amount = 10 and s = initial_ledger and today = "''2024-07-23''"] j
  have 1: "xp (mockUserProfile initial_ledger) \<le>
     xp (mockUserProfile (awardXp ''2024-07-23'' 10 initial_ledger))" by simp
  from awardXp_adds_amount [where amount = "- 5" and s = initial_ledger
      and today = "''2024-07-23''"] x
  have 2: "xp (mockUserProfile (awardXp ''2024-07-23'' (- 5) initial_ledger)) = 85 + (- 5)"
    by simp
  from j 1 2 show ?thesis by blast
qed

lemma update_xp_log_absent:
  "findIndex (\<lambda>e. log_date e = today) lg = None \<Longrightarrow>
   update_xp_log today v lg = lg @ [\<lparr>log_date = today, log_xp = v\<rparr>]"
  by (simp add: update_xp_log_def)

text \<open>
  Claim C10: \<^verbatim>\<open>awardXp\<close> preserves the invariant that the XP log has at most 60
  entries; when the log holds 60 entries, none of them dated today, a call with a non-zero
  amount drops the oldest (first) entry and appends today's, which holds the sum of the
  experience and the amount, so the history is truncated to the latest 60 dates.
\<close>

theorem awardXp_log_bounded:
  assumes "length (mockXpLog s) \<le> 60"
  shows "length (mockXpLog (awardXp today amount s)) \<le> 60 \<and>
         (amount \<noteq> 0 \<and> length (mockXpLog s) = 60 \<and>
            (\<forall>e \<in> set (mockXpLog s). log_date e \<noteq> today) \<longrightarrow>
          mockXpLog (awardXp today amount s) =
            tl (mockXpLog s)
            @ [\<lparr>log_date = today, log_xp = js_add (xp (mockUserProfile s)) amount\<rparr>])"
proof
  show "length (mockXpLog (awardXp today amount s)) \<le> 60"
  proof (cases "amount = 0")
    case True
    with assms show ?thesis by (simp add: awardXp_def)
  next
    case False
    have "length (update_xp_log today (js_add (xp (mockUserProfile s)) amount) (mockXpLog s))
        \<le> 61"
      using length_update_xp_log [of today "js_add (xp (mockUserProfile s)) amount"
          "mockXpLog s"] assms
      by simp
    then have "length (shift_if_long
        (update_xp_log today (js_add (xp (mockUserProfile s)) amount) (mockXpLog s))) \<le> 60"
      by (rule length_shift_if_long)
    with False show ?thesis by (simp add: awardXp_def Let_def)
  qed
next
  show "amount \<noteq> 0 \<and> length (mockXpLog s) = 60 \<and>
            (\<forall>e \<in> set (mockXpLog s). log_date e \<noteq> today) \<longrightarrow>
          mockXpLog (awardXp today amount s) =
            tl (mockXpLog s)
            @ [\<lparr>log_date = today, log_xp = js_add (xp (mockUserProfile s)) amount\<rparr>]"
  proof (intro impI, elim conjE)
    assume nz: "amount \<noteq> 0" and len: "length (mockXpLog s) = 60"
      and fresh: "\<forall>e \<in> set (mockXpLog s). log_date e \<noteq> today"
    from fresh have "findIndex (\<lambda>e. log_date e = today) (mockXpLog s) = None"
      by (simp add: findIndex_None_iff)
    then have upd: "update_xp_log today (js_add (xp (mockUserProfile s)) amount) (mockXpLog s) =
        mockXpLog s @ [\<lparr>log_date = today, log_xp = js_add (xp (mockUserProfile s)) amount\<rparr>]"
      by (rule update_xp_log_absent)
    from len have ne: "mockXpLog s \<noteq> []" by auto
    with nz len upd show "mockXpLog (awardXp today amount s) =
            tl (mockXpLog s)
            @ [\<lparr>log_date = today, log_xp = js_add (xp (mockUserProfile s)) amount\<rparr>]"
      by (simp add: awardXp_def Let_def shift_if_long_def)
  qed
qed

text \<open>A log of sixty entries, none dated today: the first entry is dropped.\<close>

theorem awardXp_log_bounded_witness:
  "length (mockXpLog sixty_entry_ledger) = 60 \<and>
   length (mockXpLog (awardXp ''2024-07-23'' 10 sixty_entry_ledger)) \<le> 60 \<and>
   mockXpLog (awardXp ''2024-07-23'' 10 sixty_entry_ledger) =
     tl (mockXpLog sixty_entry_ledger) @ [\<lparr>log_date = ''2024-07-23'', log_xp = 95\<rparr>]"
proof -
  have len: "length (mockXpLog sixty_entry_ledger) = 60"
    by (simp add: sixty_entry_ledger_def)
  have fresh: "\<forall>e \<in> set (mockXpLog sixty_entry_ledger). log_date e \<noteq> ''2024-07-23''"
    by (simp add: sixty_entry_ledger_def)
  have x: "js_add (xp (mockUserProfile sixty_entry_ledger)) 10 = 95"
    by (simp add: js_add_exact sixty_entry_ledger_def initial_profile_def)
  from len have le: "length (mockXpLog sixty_entry_ledger) \<le> 60" by simp
  show ?thesis
    using awardXp_log_bounded [OF le, where amount = 10 and today = "''2024-07-23''"] len fresh x
    by simp
qed

subsection \<open>Progress projector\<close>

lemma no_modules_display:
  "goal_type g = Learning \<Longrightarrow> modules g = Some [] \<Longrightarrow>
   calculateOverallProgressDisplay (Some g) = \<lparr>percent = 0, display_text = ''No modules''\<rparr>"
  by (simp add: calculateOverallProgressDisplay_def)

lemma learning_display_text:
  "goal_type g = Learning \<Longrightarrow> modules g = Some ms \<Longrightarrow> ms \<noteq> [] \<Longrightarrow>
   display_text (calculateOverallProgressDisplay (Some g)) =
     string_of_nat (length (filter verified ms)) @ '' Verified, ''
     @ string_of_nat (length (filter (\<lambda>m. status m = Completed \<and> \<not> verified m) ms))
     @ '' Self-Completed / '' @ string_of_nat (length ms) @ '' Total Modules''"
  by (simp add: calculateOverallProgressDisplay_def Let_def)

lemma three_module_display:
  "calculateOverallProgressDisplay (Some three_module_goal) =
     \<lparr>percent = 50, display_text = ''1 Verified, 1 Self-Completed / 3 Total Modules''\<rparr>"
  by code_simp

lemma binary64_of_one_tenth: "binary64 (1, 10) = (7205759403792794, 72057594037927936)"
  by code_simp

lemma binary64_of_half: "binary64 (1, 2) = (4503599627370496, 9007199254740992)"
  by code_simp

text \<open>
  Claim C3 says that for a Learning goal with \<open>N > 0\<close> modules the percentage is
  \<open>100 * (verifiedCount + 0.5 * halfCount) / N\<close> rounded half up. The source computes
  \<^verbatim>\<open>Math.round((effectiveProgressValue / totalModules) * 100)\<close> in binary64: with 11
  verified modules and 1 self-completed module out of 20, the quotient \<open>11.5 / 20\<close> rounds
  to a number just below 0.575, its product with 100 to 57.49999999999999, and
  \<^verbatim>\<open>Math.round\<close> gives 57, where \<open>57.5\<close> rounded half up is 58. The text of the
  display is as the claim says.
\<close>

theorem progress_percent_rounding_slip:
  "calculateOverallProgressDisplay (Some twenty_module_goal) =
     \<lparr>percent = 57, display_text = ''11 Verified, 1 Self-Completed / 20 Total Modules''\<rparr> \<and>
   round_half_up_percent 11 1 20 = 58"
  by code_simp

subsection \<open>Habit trackers\<close>

lemma handleCheckIn_trackers:
  assumes "handleCheckIn today i ty x s = Inr s1"
  shows "trackers s1 =
           map (check_in_tracker (newLog_of today ty (inputs_of s i)) i) (trackers s)"
  using assms
  by (auto simp: handleCheckIn_def Let_def updateTrackersState_def split: if_splits)

lemma check_in_tracker_id [simp]: "tracker_id (check_in_tracker l i t) = tracker_id t"
  by (simp add: check_in_tracker_def Let_def)

lemma check_in_tracker_streak:
  "currentStreak (check_in_tracker l i t) =
     (if tracker_id t = i then currentStreak t + 1 else currentStreak t)"
  by (simp add: check_in_tracker_def Let_def)

lemma check_in_tracker_entries:
  "tracker_id t = i \<Longrightarrow> checkin_date l = d \<Longrightarrow>
   entries_on d (check_in_tracker l i t) = Suc (entries_on d t)"
  by (simp add: check_in_tracker_def Let_def entries_on_def)

lemma todaysLog_None_iff: "todaysLog d t = None \<longleftrightarrow> entries_on d t = 0"
  by (auto simp: todaysLog_def entries_on_def find_None_iff filter_empty_conv)

lemma newLog_of_date [simp]: "checkin_date (newLog_of today ty inp) = today"
  by (simp add: newLog_of_def)

lemma distinct_ids_unique:
  assumes "distinct (map tracker_id ts)" and "t \<in> set ts" and "u \<in> set ts"
    and "tracker_id t = tracker_id u"
  shows "t = u"
  using assms by (meson distinct_map inj_onD)

text \<open>
  Claim C2 says that a second \<^verbatim>\<open>checkIn\<close> for the same habit on the same date is
  rejected with a validation error and changes nothing. \<^verbatim>\<open>handleCheckIn\<close> validates
  the proof only: called twice on one date for the tracker \<^verbatim>\<open>h2\<close> (streak 0, empty log)
  it succeeds twice, the streak becomes 2 and the log holds two entries for the date.
\<close>

theorem double_check_in_counterexample:
  "\<not> isl (check_in_twice ''2024-08-01'' ''h2'' Unverified 0 mounted_page) \<and>
   map currentStreak
     (trackers (projr (check_in_twice ''2024-08-01'' ''h2'' Unverified 0 mounted_page))) = [5, 2] \<and>
   map (entries_on ''2024-08-01'')
     (trackers (projr (check_in_twice ''2024-08-01'' ''h2'' Unverified 0 mounted_page))) = [0, 2]"
  by (simp add: check_in_twice_def handleCheckIn_def Let_def mounted_page_def tracker_h1_def
      tracker_h2_def updateTrackersState_def entries_on_def proofValue_of_def
      check_in_tracker_def newLog_of_def)

text \<open>
  Claim C2 as the code has it: the guard is in the view. Once a check-in the page offers
  has succeeded for a habit on a date, the page offers no check-in of any proof type for
  that habit on that date (the buttons are not rendered; no validation error is raised),
  so nothing can change the streak, the XP or the log a second time; and, tracker ids being
  distinct, the habit's log holds exactly one entry for the date.
\<close>

theorem check_in_once_through_view:
  assumes "click_check_in today i ty s = Some (Inr s1)"
  shows "click_check_in today i ty' s1 = None \<and>
         (distinct (map tracker_id (trackers s)) \<longrightarrow>
            (\<forall>t \<in> set (trackers s1). tracker_id t = i \<longrightarrow> entries_on today t = 1))"
proof -
  from assms have offered: "check_in_offered today i ty s"
    and hc: "handleCheckIn today i ty (if ty = Unverified then 0 else 10) s = Inr s1"
    by (auto simp: click_check_in_def split: if_splits)
  let ?f = "check_in_tracker (newLog_of today ty (inputs_of s i)) i"
  have tr: "trackers s1 = map ?f (trackers s)"
    by (rule handleCheckIn_trackers [OF hc])
  have logged: "todaysLog today t' \<noteq> None" if "t' \<in> set (trackers s1)" "tracker_id t' = i" for t'
  proof -
    from that tr obtain t where t: "t \<in> set (trackers s)" "t' = ?f t" by auto
    with that have "tracker_id t = i" by simp
    then have "entries_on today t' = Suc (entries_on today t)"
      unfolding t by (rule check_in_tracker_entries) simp
    then show ?thesis by (simp add: todaysLog_None_iff)
  qed
  then have "\<not> check_in_offered today i ty' s1"
    by (auto simp: check_in_offered_def list_ex_iff)
  then have first: "click_check_in today i ty' s1 = None"
    by (simp add: click_check_in_def)
  have second: "\<forall>t \<in> set (trackers s1). tracker_id t = i \<longrightarrow> entries_on today t = 1"
    if d: "distinct (map tracker_id (trackers s))"
  proof (intro ballI impI)
    fix t' assume t': "t' \<in> set (trackers s1)" "tracker_id t' = i"
    from t' tr obtain t where t: "t \<in> set (trackers s)" "t' = ?f t" by auto
    with t' have ti: "tracker_id t = i" by simp
    from offered obtain t0 where t0: "t0 \<in> set (trackers s)" "tracker_id t0 = i"
      "todaysLog today t0 = None"
      by (auto simp: check_in_offered_def list_ex_iff)
    from d t(1) t0(1) ti t0(2) have "t = t0" by (auto intro: distinct_ids_unique)
    with t0 have "entries_on today t = 0" by (simp add: todaysLog_None_iff)
    moreover have "entries_on today t' = Suc (entries_on today t)"
      unfolding t using ti by (rule check_in_tracker_entries) simp
    ultimately show "entries_on today t' = 1" by simp
  qed
  from first second show ?thesis by blast
qed

text \<open>The tracker \<^verbatim>\<open>h2\<close> of the source's data, checked in on 2024-08-01.\<close>

theorem check_in_once_through_view_witness:
  "click_check_in ''2024-08-01'' ''h2'' Unverified mounted_page =
     Some (Inr (projr (the (click_check_in ''2024-08-01'' ''h2'' Unverified mounted_page)))) \<and>
   distinct (map tracker_id (trackers mounted_page)) \<and>
   click_check_in ''2024-08-01'' ''h2'' Link
     (projr (the (click_check_in ''2024-08-01'' ''h2'' Unverified mounted_page))) = None \<and>
   map (entries_on ''2024-08-01'')
     (trackers (projr (the (click_check_in ''2024-08-01'' ''h2'' Unverified mounted_page)))) = [0, 1]"
proof -
  have off: "check_in_offered ''2024-08-01'' ''h2'' Unverified mounted_page"
    by (simp add: check_in_offered_def mounted_page_def tracker_h1_def tracker_h2_def
        todaysLog_def)
  have ok: "\<not> isl (handleCheckIn ''2024-08-01'' ''h2'' Unverified 0 mounted_page)"
    by (simp add: handleCheckIn_def Let_def proofValue_of_def)
  from off ok have a: "click_check_in ''2024-08-01'' ''h2'' Unverified mounted_page =
     Some (Inr (projr (the (click_check_in ''2024-08-01'' ''h2'' Unverified mounted_page))))"
    by (cases "handleCheckIn ''2024-08-01'' ''h2'' Unverified 0 mounted_page")
       (simp_all add: click_check_in_def)
  have d: "distinct (map tracker_id (trackers mounted_page))"
    by (simp add: mounted_page_def tracker_h1_def tracker_h2_def)
  have e: "map (entries_on ''2024-08-01'')
     (trackers (projr (the (click_check_in ''2024-08-01'' ''h2'' Unverified mounted_page)))) = [0, 1]"
    using off
    by (simp add: click_check_in_def handleCheckIn_def Let_def proofValue_of_def
        updateTrackersState_def mounted_page_def tracker_h1_def tracker_h2_def entries_on_def
        check_in_tracker_def newLog_of_def)
  from check_in_once_through_view [OF a, where ty' = Link] a d e show ?thesis by blast
qed

lemma freeze_tracker_idle:
  "tracker_id t = i \<longrightarrow> remaining (streakFreezes t) = 0 \<Longrightarrow> freeze_tracker today i t = t"
  by (auto simp: freeze_tracker_def)

lemma freeze_tracker_effect:
  assumes "tracker_id t = i" and "0 < remaining (streakFreezes t)"
  shows "logs (freeze_tracker today i t) = frozen_log today # logs t"
    and "remaining (streakFreezes (freeze_tracker today i t)) = remaining (streakFreezes t) - 1"
    and "total (streakFreezes (freeze_tracker today i t)) = total (streakFreezes t)"
    and "currentStreak (freeze_tracker today i t) = currentStreak t"
    and "longestStreak (freeze_tracker today i t) = longestStreak t"
  using assms by (simp_all add: freeze_tracker_def Let_def)

lemma handleUseStreakFreeze_trackers:
  "trackers (handleUseStreakFreeze today i s) = map (freeze_tracker today i) (trackers s)"
  by (simp add: handleUseStreakFreeze_def updateTrackersState_def Let_def)

text \<open>
  Claim C4 says that \<^verbatim>\<open>useStreakFreeze\<close> is a no-op whenever the habit already has a
  log entry for today. \<^verbatim>\<open>handleUseStreakFreeze\<close> tests the remaining tokens only: the
  tracker \<^verbatim>\<open>h1\<close> has one token and an entry dated 2024-07-22, and the call on that date
  adds a second entry for it and consumes the token.
\<close>

theorem freeze_after_check_in_counterexample:
  "entries_on ''2024-07-22'' tracker_h1 = 1 \<and>
   remaining (streakFreezes tracker_h1) = 1 \<and>
   map (entries_on ''2024-07-22'')
     (trackers (handleUseStreakFreeze ''2024-07-22'' ''h1'' mounted_page)) = [2, 0] \<and>
   map remaining (map streakFreezes
     (trackers (handleUseStreakFreeze ''2024-07-22'' ''h1'' mounted_page))) = [0, 0]"
  by (simp add: handleUseStreakFreeze_def Let_def mounted_page_def tracker_h1_def tracker_h2_def
      updateTrackersState_def entries_on_def freeze_tracker_def frozen_log_def)

text \<open>
  Claim C4 as the code has it. \<^verbatim>\<open>handleUseStreakFreeze\<close> leaves the trackers as they
  are when no token remains (silently: it returns nothing and alerts nothing), and then the
  whole page state if the module-level list agrees with the page's. The guard on today's
  log entry is in the view: the button \<^verbatim>\<open>Use Token\<close> is disabled when no token remains
  or the habit has an entry for today. With a token remaining, the handler puts one Frozen
  entry for today at the head of the log, decrements the remaining tokens by 1 and leaves
  \<^verbatim>\<open>currentStreak\<close> unchanged.
\<close>

theorem use_streak_freeze_behaviour:
  "((\<forall>t \<in> set (trackers s). tracker_id t = i \<longrightarrow> remaining (streakFreezes t) = 0) \<longrightarrow>
      trackers (handleUseStreakFreeze today i s) = trackers s \<and>
      (mockTrackersData s = trackers s \<longrightarrow> handleUseStreakFreeze today i s = s)) \<and>
   ((\<forall>t \<in> set (trackers s). tracker_id t = i \<longrightarrow>
        remaining (streakFreezes t) = 0 \<or> todaysLog today t \<noteq> None) \<longrightarrow>
      click_use_token today i s = None) \<and>
   length (trackers (handleUseStreakFreeze today i s)) = length (trackers s) \<and>
   (\<forall>k < length (trackers s).
      tracker_id (trackers s ! k) = i \<and> 0 < remaining (streakFreezes (trackers s ! k)) \<longrightarrow>
        logs (trackers (handleUseStreakFreeze today i s) ! k)
          = frozen_log today # logs (trackers s ! k) \<and>
        remaining (streakFreezes (trackers (handleUseStreakFreeze today i s) ! k))
          = remaining (streakFreezes (trackers s ! k)) - 1 \<and>
        currentStreak (trackers (handleUseStreakFreeze today i s) ! k)
          = currentStreak (trackers s ! k))"
proof (intro conjI impI allI)
  assume "\<forall>t \<in> set (trackers s). tracker_id t = i \<longrightarrow> remaining (streakFreezes t) = 0"
  then have "map (freeze_tracker today i) (trackers s) = trackers s"
    by (intro map_idI freeze_tracker_idle) simp
  then show "trackers (handleUseStreakFreeze today i s) = trackers s"
    and "mockTrackersData s = trackers s \<Longrightarrow> handleUseStreakFreeze today i s = s"
    by (simp_all add: handleUseStreakFreeze_def updateTrackersState_def Let_def)
next
  assume "\<forall>t \<in> set (trackers s). tracker_id t = i \<longrightarrow>
        remaining (streakFreezes t) = 0 \<or> todaysLog today t \<noteq> None"
  then have "\<not> use_token_enabled today i s"
    by (auto simp: use_token_enabled_def list_ex_iff)
  then show "click_use_token today i s = None"
    by (simp add: click_use_token_def)
next
  show "length (trackers (handleUseStreakFreeze today i s)) = length (trackers s)"
    by (simp add: handleUseStreakFreeze_trackers)
next
  fix k
  assume k: "k < length (trackers s)"
    and m: "tracker_id (trackers s ! k) = i \<and> 0 < remaining (streakFreezes (trackers s ! k))"
  from k have nth: "trackers (handleUseStreakFreeze today i s) ! k =
      freeze_tracker today i (trackers s ! k)"
    by (simp add: handleUseStreakFreeze_trackers)
  from m show "logs (trackers (handleUseStreakFreeze today i s) ! k)
          = frozen_log today # logs (trackers s ! k)"
    by (simp add: nth freeze_tracker_effect)
  from m show "remaining (streakFreezes (trackers (handleUseStreakFreeze today i s) ! k))
          = remaining (streakFreezes (trackers s ! k)) - 1"
    by (simp add: nth freeze_tracker_effect)
  from m show "currentStreak (trackers (handleUseStreakFreeze today i s) ! k)
          = currentStreak (trackers s ! k)"
    by (simp add: nth freeze_tracker_effect)
qed

text \<open>The trackers of the source's data: \<^verbatim>\<open>h2\<close> has no token, \<^verbatim>\<open>h1\<close> has one
  and an entry dated 2024-07-22.\<close>

theorem use_streak_freeze_behaviour_witness:
  "trackers (handleUseStreakFreeze ''2024-08-01'' ''h2'' mounted_page) = trackers mounted_page \<and>
   click_use_token ''2024-08-01'' ''h2'' mounted_page = None \<and>
   click_use_token ''2024-07-22'' ''h1'' mounted_page = None \<and>
   logs (trackers (handleUseStreakFreeze ''2024-08-01'' ''h1'' mounted_page) ! 0)
     = frozen_log ''2024-08-01'' # logs tracker_h1 \<and>
   remaining (streakFreezes (trackers (handleUseStreakFreeze ''2024-08-01'' ''h1'' mounted_page) ! 0))
     = 0 \<and>
   currentStreak (trackers (handleUseStreakFreeze ''2024-08-01'' ''h1'' mounted_page) ! 0) = 5"
proof -
  have h2: "\<forall>t \<in> set (trackers mounted_page).
      tracker_id t = ''h2'' \<longrightarrow> remaining (streakFreezes t) = 0"
    by (simp add: mounted_page_def tracker_h1_def tracker_h2_def)
  then have h2': "\<forall>t \<in> set (trackers mounted_page). tracker_id t = ''h2'' \<longrightarrow>
      remaining (streakFreezes t) = 0 \<or> todaysLog ''2024-08-01'' t \<noteq> None"
    by blast
  have h1: "\<forall>t \<in> set (trackers mounted_page). tracker_id t = ''h1'' \<longrightarrow>
      remaining (streakFreezes t) = 0 \<or> todaysLog ''2024-07-22'' t \<noteq> None"
    by (simp add: mounted_page_def tracker_h1_def tracker_h2_def todaysLog_def)
  have k: "0 < length (trackers mounted_page)"
    "tracker_id (trackers mounted_page ! 0) = ''h1'' \<and>
     0 < remaining (streakFreezes (trackers mounted_page ! 0))"
    "trackers mounted_page ! 0 = tracker_h1"
    "remaining (streakFreezes tracker_h1) = 1" "currentStreak tracker_h1 = 5"
    by (simp_all add: mounted_page_def tracker_h1_def)
  note a = use_streak_freeze_behaviour [where s = mounted_page and i = "''h2''"
      and today = "''2024-08-01''"]
  note b = use_streak_freeze_behaviour [where s = mounted_page and i = "''h1''"
      and today = "''2024-07-22''"]
  note c = use_streak_freeze_behaviour [where s = mounted_page and i = "''h1''"
      and today = "''2024-08-01''"]
  from a h2 h2' have 1: "trackers (handleUseStreakFreeze ''2024-08-01'' ''h2'' mounted_page) = trackers mounted_page"
    and 2: "click_use_token ''2024-08-01'' ''h2'' mounted_page = None" by blast+
  from b h1 have 3: "click_use_token ''2024-07-22'' ''h1'' mounted_page = None" by blast
  from c k(1,2) have 4: "logs (trackers (handleUseStreakFreeze ''2024-08-01'' ''h1'' mounted_page) ! 0)
          = frozen_log ''2024-08-01'' # logs (trackers mounted_page ! 0) \<and>
        remaining (streakFreezes (trackers (handleUseStreakFreeze ''2024-08-01'' ''h1'' mounted_page) ! 0))
          = remaining (streakFreezes (trackers mounted_page ! 0)) - 1 \<and>
        currentStreak (trackers (handleUseStreakFreeze ''2024-08-01'' ''h1'' mounted_page) ! 0)
          = currentStreak (trackers mounted_page ! 0)" by blast
  from 1 2 3 4 k(3,4,5) show ?thesis by simp
qed

lemma freeze_tracker_streak [simp]: "currentStreak (freeze_tracker today i t) = currentStreak t"
  by (simp add: freeze_tracker_def Let_def)

lemma fold_max_Max: "fold max (xs :: nat list) a = Max (insert a (set xs))"
proof (induction xs arbitrary: a)
  case Nil
  then show ?case by simp
next
  case (Cons x xs)
  have "fold max (x # xs) a = Max (insert (max x a) (set xs))" by (simp add: Cons.IH)
  also have "\<dots> = Max (insert a (insert x (set xs)))"
    by (cases "set xs = {}") (simp_all add: max.commute max.left_commute max.assoc)
  finally show ?case by simp
qed

lemma topStreak_Max:
  "topStreak ts = (if ts = [] then None else Some (Max (currentStreak ` set ts)))"
  by (cases ts) (simp_all add: topStreak_def fold_max_Max)

text \<open>
  Claim C5 says that a habit whose latest log entry is older than yesterday has its
  \<^verbatim>\<open>currentStreak\<close> reset to 0 on the next read or write, so that a check-in after the
  gap yields 1. The tracker \<^verbatim>\<open>h1\<close> has streak 5 and its latest entry on 2024-07-22; a
  check-in on 2024-08-01 yields 6.
\<close>

theorem stale_streak_counterexample:
  "checkin_date (hd (logs tracker_h1)) = ''2024-07-22'' \<and>
   currentStreak tracker_h1 = 5 \<and>
   \<not> isl (handleCheckIn ''2024-08-01'' ''h1'' Unverified 0 mounted_page) \<and>
   map_option currentStreak
     (find_tracker ''h1''
        (projr (handleCheckIn ''2024-08-01'' ''h1'' Unverified 0 mounted_page))) = Some 6"
  by (simp add: handleCheckIn_def Let_def mounted_page_def tracker_h1_def tracker_h2_def
      find_tracker_def updateTrackersState_def proofValue_of_def check_in_tracker_def)

text \<open>
  Claim C5 as the code has it: there is no reset, on a write or on a read. A successful
  check-in sets the \<^verbatim>\<open>currentStreak\<close> of the habit to its previous value plus 1,
  whatever the dates in its log (for a streak below \<open>2 ^ 53\<close>, where adding 1 is exact),
  and leaves the streak of every other habit as it is; a streak freeze leaves every streak
  as it is, and so does the mounting of the page. The places that read the streak show the
  stored value on every date: the card of each habit, the top-streak card (the largest
  stored streak) and the preview of a goal's linked habit.
\<close>

theorem streak_never_reset:
  "(handleCheckIn today i ty x s = Inr s1 \<and>
    (\<forall>t \<in> set (trackers s). tracker_id t = i \<longrightarrow> currentStreak t < 2 ^ 53) \<longrightarrow>
      map currentStreak (trackers s1) =
        map (\<lambda>t. if tracker_id t = i then currentStreak t + 1 else currentStreak t)
          (trackers s)) \<and>
   map currentStreak (trackers (handleUseStreakFreeze today i s)) =
     map currentStreak (trackers s) \<and>
   map currentStreak (trackers (mount_tracker_page ts checkins l)) = map currentStreak ts \<and>
   map streak_count (map card_streak (habit_cards today s)) = map currentStreak (trackers s) \<and>
   topStreak ts = (if ts = [] then None else Some (Max (currentStreak ` set ts))) \<and>
   (linkedHabit g ts = Some h \<longrightarrow>
      map_option preview_streak (LinkedHabitPreview (linkedHabit g ts))
        = Some (currentStreak h))"
proof (intro conjI impI)
  assume "handleCheckIn today i ty x s = Inr s1 \<and>
    (\<forall>t \<in> set (trackers s). tracker_id t = i \<longrightarrow> currentStreak t < 2 ^ 53)"
  then have "handleCheckIn today i ty x s = Inr s1" by simp
  then show "map currentStreak (trackers s1) =
        map (\<lambda>t. if tracker_id t = i then currentStreak t + 1 else currentStreak t)
          (trackers s)"
    by (simp add: handleCheckIn_trackers check_in_tracker_streak)
next
  show "map currentStreak (trackers (handleUseStreakFreeze today i s)) =
     map currentStreak (trackers s)"
    by (simp add: handleUseStreakFreeze_trackers)
next
  show "map currentStreak (trackers (mount_tracker_page ts checkins l)) = map currentStreak ts"
    by (simp add: mount_tracker_page_def)
next
  show "map streak_count (map card_streak (habit_cards today s)) = map currentStreak (trackers s)"
    by (simp add: habit_cards_def StreakVisual_def Let_def comp_def)
next
  show "topStreak ts = (if ts = [] then None else Some (Max (currentStreak ` set ts)))"
    by (rule topStreak_Max)
next
  assume "linkedHabit g ts = Some h"
  then show "map_option preview_streak (LinkedHabitPreview (linkedHabit g ts))
        = Some (currentStreak h)"
    by (simp add: LinkedHabitPreview_def)
qed

text \<open>The source's trackers on 2024-08-01, ten days after the latest entry of
  \<^verbatim>\<open>h1\<close>.\<close>

theorem streak_never_reset_witness:
  "\<not> isl (handleCheckIn ''2024-08-01'' ''h1'' Unverified 0 mounted_page) \<and>
   map currentStreak
     (trackers (projr (handleCheckIn ''2024-08-01'' ''h1'' Unverified 0 mounted_page))) = [6, 0] \<and>
   map currentStreak (trackers (handleUseStreakFreeze ''2024-08-01'' ''h1'' mounted_page)) = [5, 0] \<and>
   mount_tracker_page (mockTrackersData mounted_page) [] initial_ledger = mounted_page \<and>
   map streak_count (map card_streak (habit_cards ''2024-08-01'' mounted_page)) = [5, 0] \<and>
   topStreak (mockTrackersData mounted_page) = Some 5 \<and>
   linkedHabit React101 (mockTrackersData mounted_page) = Some tracker_h1 \<and>
   map_option preview_streak
     (LinkedHabitPreview (linkedHabit React101 (mockTrackersData mounted_page))) = Some 5"
proof -
  have a: "\<not> isl (handleCheckIn ''2024-08-01'' ''h1'' Unverified 0 mounted_page)"
    by (simp add: handleCheckIn_def Let_def proofValue_of_def)
  then have b: "handleCheckIn ''2024-08-01'' ''h1'' Unverified 0 mounted_page =
    Inr (projr (handleCheckIn ''2024-08-01'' ''h1'' Unverified 0 mounted_page))"
    by (cases "handleCheckIn ''2024-08-01'' ''h1'' Unverified 0 mounted_page") simp_all
  have bound: "\<forall>t \<in> set (trackers mounted_page). tracker_id t = ''h1'' \<longrightarrow>
      currentStreak t < 2 ^ 53"
    by (simp add: mounted_page_def tracker_h1_def tracker_h2_def)
  have tr: "map currentStreak (trackers mounted_page) = [5, 0]"
    "map (\<lambda>t. if tracker_id t = ''h1'' then currentStreak t + 1 else currentStreak t)
       (trackers mounted_page) = [6, 0]"
    "mockTrackersData mounted_page \<noteq> []"
    "Max (currentStreak ` set (mockTrackersData mounted_page)) = 5"
    by (simp_all add: mounted_page_def tracker_h1_def tracker_h2_def)
  have l: "linkedHabit React101 (mockTrackersData mounted_page) = Some tracker_h1"
    by (simp add: linkedHabit_def React101_def mounted_page_def tracker_h1_def tracker_h2_def)
  have c: "currentStreak tracker_h1 = 5" by (simp add: tracker_h1_def)
  have mt: "mount_tracker_page (mockTrackersData mounted_page) [] initial_ledger = mounted_page"
    by (simp add: mount_tracker_page_def mounted_page_def)
  note th = streak_never_reset [where today = "''2024-08-01''" and i = "''h1''"
      and ty = Unverified and x = 0 and s = mounted_page
      and ?s1.0 = "projr (handleCheckIn ''2024-08-01'' ''h1'' Unverified 0 mounted_page)"
      and ts = "mockTrackersData mounted_page" and g = React101 and h = tracker_h1
      and checkins = "[]" and l = initial_ledger]
  from th b bound tr(2) have 1: "map currentStreak
     (trackers (projr (handleCheckIn ''2024-08-01'' ''h1'' Unverified 0 mounted_page))) = [6, 0]"
    by simp
  from th tr(1) have 2:
    "map currentStreak (trackers (handleUseStreakFreeze ''2024-08-01'' ''h1'' mounted_page)) = [5, 0]"
    and 3: "map streak_count (map card_streak (habit_cards ''2024-08-01'' mounted_page)) = [5, 0]"
    by simp_all
  from th tr(3,4) have 4: "topStreak (mockTrackersData mounted_page) = Some 5" by simp
  from th l c have 5: "map_option preview_streak
     (LinkedHabitPreview (linkedHabit React101 (mockTrackersData mounted_page))) = Some 5"
    by simp
  from a 1 2 mt 3 4 l 5 show ?thesis by blast
qed

subsection \<open>Module handlers\<close>

text \<open>A handler call, on the goal it reads: the modules stay in place, a completed module
  stays completed, and a verified module is completed afterwards if that held before.\<close>

lemma modules_of_updated_goal:
  "modules_of (updated_goal c g) =
     map (\<lambda>m. if module_id m = (case c of ModuleVerified i \<Rightarrow> i | ModuleSelfCompleted i \<Rightarrow> i)
              then m\<lparr>status := Completed,
                     verified := (case c of ModuleVerified _ \<Rightarrow> True
                                  | ModuleSelfCompleted _ \<Rightarrow> False)\<rparr>
              else m) (modules_of g)"
  by (cases c)
     (simp_all add: handleModuleVerified_def handleModuleSelfCompleted_def modules_of_def
        split: option.splits)

lemma updated_goal_keeps_completed:
  "k < length (modules_of g) \<Longrightarrow> status (modules_of g ! k) = Completed \<Longrightarrow>
   status (modules_of (updated_goal c g) ! k) = Completed"
  by (simp add: modules_of_updated_goal)

lemma updated_goal_verified_completed:
  "list_all (\<lambda>m. verified m \<longrightarrow> status m = Completed) (modules_of g) \<Longrightarrow>
   list_all (\<lambda>m. verified m \<longrightarrow> status m = Completed) (modules_of (updated_goal c g))"
  by (auto simp: modules_of_updated_goal list_all_iff)

lemma initial_module_states:
  "module_states React101_page =
     [(''m1'', Completed, True), (''m2'', Completed, False), (''m3'', Pending, False),
      (''m4'', Pending, False), (''m5'', Pending, False)]"
  by code_simp

text \<open>
  Claim C7 says that through the normal module operations no module goes from Completed
  back to Pending and no verified module becomes unverified. The dialog defers its handler
  call by a timer, the handler reads the \<^verbatim>\<open>goal\<close> of the render that created it, and
  the overlay closes the dialog while the call is pending. In the first run module
  \<^verbatim>\<open>m4\<close> is completed after the dialog on \<^verbatim>\<open>m3\<close> was closed; the deferred call then
  stores the modules of the earlier render, and \<^verbatim>\<open>m4\<close> is pending again. In the second
  run module \<^verbatim>\<open>m2\<close> is verified, and the deferred call for \<^verbatim>\<open>m3\<close> makes it unverified
  again.
\<close>

theorem deferred_call_regresses_modules:
  "map_option module_states (run_events late_self_completion React101_page) =
     Some [(''m1'', Completed, True), (''m2'', Completed, False), (''m3'', Pending, False),
           (''m4'', Completed, False), (''m5'', Pending, False)] \<and>
   map_option module_states
       (run_events (late_self_completion @ [DeferredCallRuns 0]) React101_page) =
     Some [(''m1'', Completed, True), (''m2'', Completed, False), (''m3'', Completed, False),
           (''m4'', Pending, False), (''m5'', Pending, False)] \<and>
   map_option module_states (run_events late_verification React101_page) =
     Some [(''m1'', Completed, True), (''m2'', Completed, True), (''m3'', Pending, False),
           (''m4'', Pending, False), (''m5'', Pending, False)] \<and>
   map_option module_states
       (run_events (late_verification @ [DeferredCallRuns 0]) React101_page) =
     Some [(''m1'', Completed, True), (''m2'', Completed, False), (''m3'', Completed, True),
           (''m4'', Pending, False), (''m5'', Pending, False)]"
  by code_simp

subsection \<open>Quest parser\<close>

lemma after_first_Some:
  "after_first pat s = Some r \<Longrightarrow>
   \<exists>pre. s = pre @ pat @ r \<and> (\<forall>pre' r'. s = pre' @ pat @ r' \<longrightarrow> length pre \<le> length pre')"
proof (induction s)
  case Nil
  then show ?case by (auto split: if_splits)
next
  case (Cons c cs)
  show ?case
  proof (cases "prefix pat (c # cs)")
    case True
    with Cons.prems have r: "r = drop (length pat) (c # cs)" by simp
    from True obtain zs where "c # cs = pat @ zs" by (auto simp: prefix_def)
    with r have "c # cs = [] @ pat @ r" by simp
    then show ?thesis by (metis length_0_conv list.size(3) zero_le)
  next
    case False
    with Cons.prems have "after_first pat cs = Some r" by simp
    from Cons.IH [OF this] obtain pre where pre: "cs = pre @ pat @ r"
      and least: "\<forall>pre' r'. cs = pre' @ pat @ r' \<longrightarrow> length pre \<le> length pre'" by blast
    have "c # cs = (c # pre) @ pat @ r" using pre by simp
    moreover have "length (c # pre) \<le> length pre'" if "c # cs = pre' @ pat @ r'" for pre' r'
    proof (cases pre')
      case Nil
      with that have "prefix pat (c # cs)" by (simp add: prefix_def)
      with False show ?thesis by simp
    next
      case (Cons a pre'')
      with that have "cs = pre'' @ pat @ r'" by simp
      with least have "length pre \<le> length pre''" by blast
      with Cons show ?thesis by simp
    qed
    ultimately show ?thesis by blast
  qed
qed

lemma after_first_None_iff: "after_first pat s = None \<longleftrightarrow> \<not> sublist pat s"
proof (induction s)
  case Nil
  then show ?case by simp
next
  case (Cons c cs)
  then show ?case by (auto simp: sublist_Cons_right)
qed

lemma includes_str_iff: "includes_str s sub \<longleftrightarrow> sublist sub s"
  by (simp add: includes_str_def after_first_None_iff)

lemma regex_capture_None_iff: "regex_capture label s = None \<longleftrightarrow> \<not> sublist label s"
  by (simp add: regex_capture_def after_first_None_iff)

lemma regex_capture_Some:
  "regex_capture label s = Some v \<Longrightarrow> first_line_value label s (trim v)"
proof -
  assume "regex_capture label s = Some v"
  then obtain r where r: "after_first label s = Some r"
    and v: "v = takeWhile (\<lambda>c. \<not> is_line_terminator c) r"
    by (auto simp: regex_capture_def)
  from after_first_Some [OF r] v show ?thesis
    unfolding first_line_value_def by blast
qed

lemma find_mentions:
  "find (\<lambda>g. includes_str (toLowerCase s) (toLowerCase (title g))) gs = Some g \<Longrightarrow>
   first_mentioned_title gs s (title g)"
  unfolding first_mentioned_title_def mentions_def
  by (auto simp: find_Some_iff includes_str_iff)

lemma find_no_mention:
  "find (\<lambda>g. includes_str (toLowerCase s) (toLowerCase (title g))) gs = None \<longleftrightarrow>
   (\<forall>g \<in> set gs. \<not> mentions g s)"
  by (auto simp: find_None_iff includes_str_iff mentions_def)

lemma getWeeklyQuest_parses:
  "ai_configured \<Longrightarrow> userGoals \<noteq> [] \<Longrightarrow>
   join_comma (map title (filter is_active userGoals)) \<noteq> [] \<Longrightarrow>
   getWeeklyQuest ai_configured rnd userGoals (ProviderResponse response_text) =
     parse_quest_response rnd userGoals response_text"
  by (simp add: getWeeklyQuest_def)

text \<open>
  Claim C6 says that when a label is missing the parser returns the title
  \<^verbatim>\<open>Weekly Quest Suggestion\<close> and the raw text verbatim as description. The text is
  trimmed first, and a text that is empty after trimming raises inside the \<^verbatim>\<open>try\<close>
  and ends in the \<^verbatim>\<open>catch\<close>: a raw text of two spaces gives the title
  \<^verbatim>\<open>Quest Idea!\<close>, and the raw text \<^verbatim>\<open> hello\<close> with its leading space gives the
  description \<^verbatim>\<open>hello\<close>.
\<close>

theorem parse_quest_response_counterexample:
  "quest_title (parse_quest_response 0 [python_goal] (Some ''  '')) = ''Quest Idea!'' \<and>
   quest_title (parse_quest_response 0 [python_goal] (Some '' hello'')) =
     ''Weekly Quest Suggestion'' \<and>
   quest_description (parse_quest_response 0 [python_goal] (Some '' hello'')) = ''hello''"
  by code_simp

text \<open>
  Claim C6 as the code has it. The parsing step is a total function: it returns a quest
  record for every raw text and goal list. With \<open>t\<close> the raw text trimmed: if \<open>t\<close> is
  empty the result is the fallback quest of the \<^verbatim>\<open>catch\<close> block; if \<open>t\<close> is not empty
  and each of the labels \<^verbatim>\<open>Quest Title: \<close>, \<^verbatim>\<open>Description: \<close>, \<^verbatim>\<open>Related Goal: \<close>
  (with the space after the colon) occurs in \<open>t\<close>, each field is the trimmed rest of the
  line after the leftmost occurrence of its label; otherwise the title is
  \<^verbatim>\<open>Weekly Quest Suggestion\<close>, the description is \<open>t\<close>, and \<^verbatim>\<open>relatedGoal\<close> is the
  exact title of the first goal of the list whose title occurs in \<open>t\<close>, letter case
  ignored, or \<^verbatim>\<open>General\<close> if there is none.
\<close>

theorem parse_quest_response_cases:
  "(trim raw = [] \<longrightarrow>
      parse_quest_response rnd gs (Some raw) = quest_catch_fallback rnd gs) \<and>
   (trim raw \<noteq> [] \<and> sublist ''Quest Title: '' (trim raw) \<and>
    sublist ''Description: '' (trim raw) \<and> sublist ''Related Goal: '' (trim raw) \<longrightarrow>
      first_line_value ''Quest Title: '' (trim raw)
        (quest_title (parse_quest_response rnd gs (Some raw))) \<and>
      first_line_value ''Description: '' (trim raw)
        (quest_description (parse_quest_response rnd gs (Some raw))) \<and>
      first_line_value ''Related Goal: '' (trim raw)
        (relatedGoal (parse_quest_response rnd gs (Some raw)))) \<and>
   (trim raw \<noteq> [] \<and> \<not> (sublist ''Quest Title: '' (trim raw) \<and>
    sublist ''Description: '' (trim raw) \<and> sublist ''Related Goal: '' (trim raw)) \<longrightarrow>
      quest_title (parse_quest_response rnd gs (Some raw)) = ''Weekly Quest Suggestion'' \<and>
      quest_description (parse_quest_response rnd gs (Some raw)) = trim raw \<and>
      (if \<exists>g \<in> set gs. mentions g (trim raw)
       then first_mentioned_title gs (trim raw)
              (relatedGoal (parse_quest_response rnd gs (Some raw)))
       else relatedGoal (parse_quest_response rnd gs (Some raw)) = ''General''))"
proof (intro conjI impI)
  assume "trim raw = []"
  then show "parse_quest_response rnd gs (Some raw) = quest_catch_fallback rnd gs"
    by (simp add: parse_quest_response_def)
next
  assume a: "trim raw \<noteq> [] \<and> sublist ''Quest Title: '' (trim raw) \<and>
    sublist ''Description: '' (trim raw) \<and> sublist ''Related Goal: '' (trim raw)"
  then obtain t d r where t: "regex_capture ''Quest Title: '' (trim raw) = Some t"
    and d: "regex_capture ''Description: '' (trim raw) = Some d"
    and r: "regex_capture ''Related Goal: '' (trim raw) = Some r"
    using regex_capture_None_iff by (metis not_Some_eq)
  from a t d r have q: "parse_quest_response rnd gs (Some raw) =
      \<lparr>quest_title = trim t, quest_description = trim d, relatedGoal = trim r\<rparr>"
    by (simp add: parse_quest_response_def)
  show "first_line_value ''Quest Title: '' (trim raw)
        (quest_title (parse_quest_response rnd gs (Some raw)))"
    using regex_capture_Some [OF t] by (simp add: q)
  show "first_line_value ''Description: '' (trim raw)
        (quest_description (parse_quest_response rnd gs (Some raw)))"
    using regex_capture_Some [OF d] by (simp add: q)
  show "first_line_value ''Related Goal: '' (trim raw)
        (relatedGoal (parse_quest_response rnd gs (Some raw)))"
    using regex_capture_Some [OF r] by (simp add: q)
next
  assume a: "trim raw \<noteq> [] \<and> \<not> (sublist ''Quest Title: '' (trim raw) \<and>
    sublist ''Description: '' (trim raw) \<and> sublist ''Related Goal: '' (trim raw))"
  let ?found = "find (\<lambda>g. includes_str (toLowerCase (trim raw)) (toLowerCase (title g))) gs"
  from a have miss: "regex_capture ''Quest Title: '' (trim raw) = None \<or>
      regex_capture ''Description: '' (trim raw) = None \<or>
      regex_capture ''Related Goal: '' (trim raw) = None"
    by (simp add: regex_capture_None_iff)
  with a have q: "parse_quest_response rnd gs (Some raw) =
      \<lparr>quest_title = ''Weekly Quest Suggestion'', quest_description = trim raw,
       relatedGoal = (case ?found of Some g \<Rightarrow> title g | None \<Rightarrow> ''General'')\<rparr>"
    by (auto simp: parse_quest_response_def Let_def split: option.splits)
  show "quest_title (parse_quest_response rnd gs (Some raw)) = ''Weekly Quest Suggestion''"
    by (simp add: q)
  show "quest_description (parse_quest_response rnd gs (Some raw)) = trim raw"
    by (simp add: q)
  show "if \<exists>g \<in> set gs. mentions g (trim raw)
       then first_mentioned_title gs (trim raw)
              (relatedGoal (parse_quest_response rnd gs (Some raw)))
       else relatedGoal (parse_quest_response rnd gs (Some raw)) = ''General''"
  proof (cases ?found)
    case None
    then have "\<forall>g \<in> set gs. \<not> mentions g (trim raw)" by (simp add: find_no_mention)
    with None show ?thesis by (simp add: q)
  next
    case (Some g)
    then have "\<exists>g \<in> set gs. mentions g (trim raw)"
      using find_no_mention [of "trim raw" gs] by auto
    with Some find_mentions [OF Some] show ?thesis by (simp add: q)
  qed
qed

text \<open>An empty text, the labelled text \<^verbatim>\<open>Quest Title: A / Description: B /
  Related Goal: C\<close> on three lines, and an unlabelled text that mentions a goal.\<close>

theorem parse_quest_response_cases_witness:
  "parse_quest_response 0 [python_goal] (Some ''  '') = quest_catch_fallback 0 [python_goal] \<and>
   parse_quest_response 0 [python_goal] (Some labelled_text) =
     \<lparr>quest_title = ''A'', quest_description = ''B'', relatedGoal = ''C''\<rparr> \<and>
   first_line_value ''Quest Title: '' labelled_text ''A'' \<and>
   first_line_value ''Description: '' labelled_text ''B'' \<and>
   first_line_value ''Related Goal: '' labelled_text ''C'' \<and>
   parse_quest_response 0 [python_goal] (Some unlabelled_text) =
     \<lparr>quest_title = ''Weekly Quest Suggestion'', quest_description = unlabelled_text,
      relatedGoal = ''Learn Python''\<rparr> \<and>
   first_mentioned_title [python_goal] unlabelled_text ''Learn Python''"
proof -
  have e: "trim ''  '' = []" by code_simp
  have tl: "trim labelled_text = labelled_text" by code_simp
  have tu: "trim unlabelled_text = unlabelled_text" by code_simp
  have nl: "labelled_text \<noteq> []" "unlabelled_text \<noteq> []" by code_simp+
  have s1: "sublist ''Quest Title: '' labelled_text"
    using after_first_None_iff [of "''Quest Title: ''" labelled_text]
    by (simp add: labelled_text_def)
  have s2: "sublist ''Description: '' labelled_text"
    using after_first_None_iff [of "''Description: ''" labelled_text]
    by (simp add: labelled_text_def)
  have s3: "sublist ''Related Goal: '' labelled_text"
    using after_first_None_iff [of "''Related Goal: ''" labelled_text]
    by (simp add: labelled_text_def)
  have n1: "\<not> sublist ''Quest Title: '' unlabelled_text"
    using after_first_None_iff [of "''Quest Title: ''" unlabelled_text]
    by (simp add: unlabelled_text_def)
  have inc: "includes_str (toLowerCase unlabelled_text) (toLowerCase (title python_goal))"
    by code_simp
  then have m: "\<exists>g \<in> set [python_goal]. mentions g unlabelled_text"
    by (simp add: mentions_def includes_str_iff)
  have ql: "parse_quest_response 0 [python_goal] (Some labelled_text) =
     \<lparr>quest_title = ''A'', quest_description = ''B'', relatedGoal = ''C''\<rparr>"
    by code_simp
  have qu: "parse_quest_response 0 [python_goal] (Some unlabelled_text) =
     \<lparr>quest_title = ''Weekly Quest Suggestion'', quest_description = unlabelled_text,
      relatedGoal = ''Learn Python''\<rparr>"
    by code_simp
  note a = parse_quest_response_cases [where raw = "''  ''" and rnd = 0 and gs = "[python_goal]"]
  note b = parse_quest_response_cases [where raw = labelled_text and rnd = 0
      and gs = "[python_goal]"]
  note c = parse_quest_response_cases [where raw = unlabelled_text and rnd = 0
      and gs = "[python_goal]"]
  from a e have 1: "parse_quest_response 0 [python_goal] (Some ''  '') =
      quest_catch_fallback 0 [python_goal]" by blast
  from b tl nl s1 s2 s3 ql have 2: "first_line_value ''Quest Title: '' labelled_text ''A''"
    and 3: "first_line_value ''Description: '' labelled_text ''B''"
    and 4: "first_line_value ''Related Goal: '' labelled_text ''C''" by simp_all
  from c tu nl n1 m qu have 5: "first_mentioned_title [python_goal] unlabelled_text ''Learn Python''"
    by simp
  from 1 ql 2 3 4 qu 5 show ?thesis by blast
qed

end
